theory Spec2Isabelle
  imports Complex_Main
begin

section \<open>Numbers of the program\<close>

text \<open>
  ZIMM.py computes with numpy float64 values. A value is modelled as a real number or one
  of the three IEEE special values. Finite arithmetic is exact: rounding, overflow to an
  infinity and underflow to zero are not modelled, and the two signed zeros are one
  \<open>Fin 0\<close>. The special values follow IEEE 754 as numpy implements it: a division by zero
  gives an infinity or NaN (numpy warns, it does not raise), \<open>log 0 = -inf\<close>,
  \<open>0 * inf = NaN\<close>, \<open>inf - inf = NaN\<close>, and every comparison with NaN is false.

  A statement about finite values is thus a statement about the exact value of the
  formula that the code evaluates. A special value arises in the model where an operation
  produces it from its operands (\<open>log 0\<close>, a division by 0, \<open>0 * inf\<close>) or where it is
  given as an argument; it never arises from the size of a finite result.
\<close>

datatype fl = Fin real | PInf | NInf | NaN

fun fneg :: "fl \<Rightarrow> fl" where
  "fneg (Fin a) = Fin (- a)"
| "fneg PInf = NInf"
| "fneg NInf = PInf"
| "fneg NaN = NaN"

fun fadd :: "fl \<Rightarrow> fl \<Rightarrow> fl" where
  "fadd (Fin a) (Fin b) = Fin (a + b)"
| "fadd NaN y = NaN"
| "fadd x NaN = NaN"
| "fadd PInf NInf = NaN"
| "fadd NInf PInf = NaN"
| "fadd PInf y = PInf"
| "fadd x PInf = PInf"
| "fadd NInf y = NInf"
| "fadd x NInf = NInf"

definition fsub :: "fl \<Rightarrow> fl \<Rightarrow> fl" where
  "fsub x y = fadd x (fneg y)"

text \<open>The sign of a real, for products and quotients with an infinity.\<close>

definition signed_inf :: "real \<Rightarrow> fl" where
  "signed_inf a = (if 0 < a then PInf else if a < 0 then NInf else NaN)"

fun fmul :: "fl \<Rightarrow> fl \<Rightarrow> fl" where
  "fmul (Fin a) (Fin b) = Fin (a * b)"
| "fmul NaN y = NaN"
| "fmul x NaN = NaN"
| "fmul (Fin a) PInf = signed_inf a"
| "fmul (Fin a) NInf = signed_inf (- a)"
| "fmul PInf (Fin b) = signed_inf b"
| "fmul NInf (Fin b) = signed_inf (- b)"
| "fmul PInf PInf = PInf"
| "fmul NInf NInf = PInf"
| "fmul PInf NInf = NInf"
| "fmul NInf PInf = NInf"

fun fdiv :: "fl \<Rightarrow> fl \<Rightarrow> fl" where
  "fdiv (Fin a) (Fin b) = (if b = 0 then signed_inf a else Fin (a / b))"
| "fdiv NaN y = NaN"
| "fdiv x NaN = NaN"
| "fdiv (Fin a) PInf = Fin 0"
| "fdiv (Fin a) NInf = Fin 0"
| "fdiv PInf (Fin b) = (if 0 \<le> b then PInf else NInf)"
| "fdiv NInf (Fin b) = (if 0 \<le> b then NInf else PInf)"
| "fdiv PInf y = NaN"
| "fdiv NInf y = NaN"

fun fabs :: "fl \<Rightarrow> fl" where
  "fabs (Fin a) = Fin \<bar>a\<bar>"
| "fabs PInf = PInf"
| "fabs NInf = PInf"
| "fabs NaN = NaN"

fun fexp :: "fl \<Rightarrow> fl" where
  "fexp (Fin a) = Fin (exp a)"
| "fexp PInf = PInf"
| "fexp NInf = Fin 0"
| "fexp NaN = NaN"

fun flog :: "fl \<Rightarrow> fl" where
  "flog (Fin a) = (if 0 < a then Fin (ln a) else if a = 0 then NInf else NaN)"
| "flog PInf = PInf"
| "flog NInf = NaN"
| "flog NaN = NaN"

fun fsqrt :: "fl \<Rightarrow> fl" where
  "fsqrt (Fin a) = (if 0 \<le> a then Fin (sqrt a) else NaN)"
| "fsqrt PInf = PInf"
| "fsqrt NInf = NaN"
| "fsqrt NaN = NaN"

text \<open>\<open>x ** 1.5\<close>: NaN for a negative base, \<open>+inf\<close> for both infinities (C99 \<open>pow\<close>).\<close>

fun fpow15 :: "fl \<Rightarrow> fl" where
  "fpow15 (Fin a) = (if 0 \<le> a then Fin (a powr (3 / 2)) else NaN)"
| "fpow15 PInf = PInf"
| "fpow15 NInf = PInf"
| "fpow15 NaN = NaN"

text \<open>\<open>x ** 2\<close>.\<close>

definition fsq :: "fl \<Rightarrow> fl" where
  "fsq x = fmul x x"

text \<open>Comparisons: false whenever an operand is NaN.\<close>

fun fless :: "fl \<Rightarrow> fl \<Rightarrow> bool" where
  "fless (Fin a) (Fin b) = (a < b)"
| "fless NaN y = False"
| "fless x NaN = False"
| "fless PInf y = False"
| "fless x PInf = True"
| "fless x NInf = False"
| "fless NInf y = True"

fun fle :: "fl \<Rightarrow> fl \<Rightarrow> bool" where
  "fle (Fin a) (Fin b) = (a \<le> b)"
| "fle NaN y = False"
| "fle x NaN = False"
| "fle x PInf = True"
| "fle NInf y = True"
| "fle PInf y = False"
| "fle x NInf = False"

fun isnan :: "fl \<Rightarrow> bool" where
  "isnan NaN = True"
| "isnan x = False"

fun isinf :: "fl \<Rightarrow> bool" where
  "isinf PInf = True"
| "isinf NInf = True"
| "isinf x = False"

text \<open>The largest float64, which \<open>np.nan_to_num\<close> puts in the place of an infinity.\<close>

definition max_float :: real where
  "max_float = (2 - 1 / 2 ^ 52) * 2 ^ 1023"

fun nan_to_num :: "fl \<Rightarrow> fl" where
  "nan_to_num NaN = Fin 0"
| "nan_to_num PInf = Fin max_float"
| "nan_to_num NInf = Fin (- max_float)"
| "nan_to_num (Fin a) = Fin a"

text \<open>A numpy boolean used as a number.\<close>

definition of_bool_fl :: "bool \<Rightarrow> fl" where
  "of_bool_fl b = (if b then Fin 1 else Fin 0)"

text \<open>\<open>np.sum\<close> of a vector (the \<open>sum\<close> that \<open>from pylab import *\<close> brings in).\<close>

definition fsum :: "fl list \<Rightarrow> fl" where
  "fsum xs = foldl fadd (Fin 0) xs"

text \<open>Python's builtin \<open>max\<close> on a non-empty sequence: the first item, replaced by each
  later item that compares greater.\<close>

definition pymax :: "fl \<Rightarrow> fl list \<Rightarrow> fl" where
  "pymax x xs = foldl (\<lambda>best y. if fless best y then y else best) x xs"

section \<open>Errors\<close>

text \<open>
  Every exception the program raises is a value. The two counts of \<open>SigmaError\<close> and the
  two likelihoods of \<open>LikelihoodError\<close> are the values the source formats into the message;
  \<open>NanInfError i\<close> carries the index of the offending matrix; \<open>ValueError\<close> is what
  \<open>max\<close> and \<open>argmax\<close> raise on an empty sequence.
\<close>

datatype error =
    SigmaError nat nat
  | AssertionError
  | NanInfError nat
  | ValueError
  | LikelihoodError fl fl

section \<open>checkNoNans\<close>

text \<open>Each element of the list is a matrix, a vector or a scalar, given by its entries.\<close>

fun checkNoNans_from :: "nat \<Rightarrow> fl list list \<Rightarrow> error + unit" where
  "checkNoNans_from i [] = Inr ()"
| "checkNoNans_from i (M # Ms) =
     (if list_ex isnan M \<or> list_ex isinf M then Inl (NanInfError i)
      else checkNoNans_from (Suc i) Ms)"

definition checkNoNans :: "fl list list \<Rightarrow> error + unit" where
  "checkNoNans matrix_list = checkNoNans_from 0 matrix_list"

section \<open>computeLLFromW\<close>

text \<open>The loop over the rows of \<open>W\<close>, with the running \<open>ll\<close>.\<close>

fun ll_rows :: "fl \<Rightarrow> fl list list \<Rightarrow> error + fl" where
  "ll_rows ll [] = Inr ll"
| "ll_rows ll ([] # rows) = Inl ValueError"
| "ll_rows ll ((w # ws) # rows) =
     (let max_val = pymax w ws;
          row = map (\<lambda>x. fsub x max_val) (w # ws)
      in ll_rows (fadd (fadd ll max_val) (flog (fsum (map fexp row)))) rows)"

definition computeLLFromW :: "fl list list \<Rightarrow> error + fl" where
  "computeLLFromW W =
     (case checkNoNans [concat W] of
        Inl e \<Rightarrow> Inl e
      | Inr _ \<Rightarrow> ll_rows (Fin 0) W)"

section \<open>Matrices\<close>

text \<open>
  A two-dimensional array is the list of its rows; the shapes are those of the source:
  \<open>Y\<close> is \<open>N \<times> D\<close>, \<open>cluster_mus\<close>, \<open>cluster_sigmas\<close>, \<open>E1\<close>, \<open>EX\<close>, \<open>EX2\<close> are \<open>D \<times> K\<close>,
  \<open>W\<close> is \<open>N \<times> K\<close> and \<open>cluster_weights\<close> has length \<open>K\<close>, with \<open>N\<close> and \<open>D\<close> at least 1 (a
  list of rows cannot tell the width of an array with no row). The model is meant for
  arguments of these shapes only; numpy's broadcasting of other shapes is not modelled.
\<close>

definition emap :: "('a \<Rightarrow> 'b) \<Rightarrow> 'a list list \<Rightarrow> 'b list list" where
  "emap f M = map (map f) M"

definition emap2 :: "('a \<Rightarrow> 'b \<Rightarrow> 'c) \<Rightarrow> 'a list list \<Rightarrow> 'b list list \<Rightarrow> 'c list list" where
  "emap2 f A B = map2 (map2 f) A B"

definition ncols :: "'a list list \<Rightarrow> nat" where
  "ncols M = (case M of [] \<Rightarrow> 0 | r # _ \<Rightarrow> length r)"

definition columns :: "'a list list \<Rightarrow> 'a list list" where
  "columns M = map (\<lambda>k. map (\<lambda>row. row ! k) M) [0..<ncols M]"

text \<open>\<open>np.dot\<close> of an \<open>n \<times> m\<close> and an \<open>m \<times> p\<close> matrix.\<close>

definition dot :: "fl list list \<Rightarrow> fl list list \<Rightarrow> fl list list" where
  "dot A B = map (\<lambda>a. map (\<lambda>b. fsum (map2 fmul a b)) (columns B)) A"

section \<open>computeIntegrals\<close>

text \<open>
  \<open>scipy.special.erf\<close> is a library function, not code of the program: the model takes it
  as the parameter \<open>erf\<close>, a function on the reals, extended to the special values as the
  library does. The error function of mathematics lies strictly between -1 and 1; its
  float64 evaluation is exactly -1 or 1 for arguments beyond about 6 in absolute value.
  A parameter with values from -1 to 1, both included, covers the two.
\<close>

fun ferf :: "(real \<Rightarrow> real) \<Rightarrow> fl \<Rightarrow> fl" where
  "ferf erf (Fin a) = Fin (erf a)"
| "ferf erf PInf = Fin 1"
| "ferf erf NInf = Fin (- 1)"
| "ferf erf NaN = NaN"

text \<open>The arithmetic of lines 31 to 39 at one entry of \<open>mu\<close> and \<open>sigma\<close>. The source's
  \<open>EX\<close> is written \<open>EXX\<close> throughout (\<open>EX\<close> is a reserved word of the logic).\<close>

definition integrals_entry :: "(real \<Rightarrow> real) \<Rightarrow> fl \<Rightarrow> fl \<Rightarrow> fl \<Rightarrow> fl \<times> fl \<times> fl" where
  "integrals_entry erf decay_coef mu sigma =
     (let a = fdiv (fadd (Fin 1) (fmul (fmul (Fin 2) (fsq sigma)) decay_coef))
                   (fmul (Fin 2) (fsq sigma));
          b = fdiv mu (fmul (fmul (Fin 2) a) (fsq sigma));
          D = fexp (fadd (fdiv (fneg (fsq mu)) (fmul (Fin 2) (fsq sigma))) (fmul a (fsq b)));
          C = fdiv (fmul (fmul D (fsqrt (Fin pi))) (fadd (ferf erf (fmul b (fsqrt a))) (Fin 1)))
                   (fmul (Fin 2) (fsqrt a));
          E1 = fdiv C (fmul (fsqrt (fmul (Fin 2) (Fin pi))) sigma);
          EXX = fadd (fdiv (fmul (fdiv D C) (fexp (fmul (fneg a) (fsq b)))) (fmul (Fin 2) a)) b;
          EX2 = fadd
                  (fadd
                     (fmul (fdiv D C)
                        (fsub
                           (fsub (fdiv (fsqrt (Fin pi)) (fmul (Fin 4) (fpow15 a)))
                                 (fdiv (fmul (fsqrt (Fin pi)) (ferf erf (fmul (fneg b) (fsqrt a))))
                                       (fmul (Fin 4) (fpow15 a))))
                           (fdiv (fmul b (fexp (fmul (fneg a) (fsq b)))) (fmul (Fin 2) a))))
                     (fdiv (fmul (fmul (fmul (Fin 2) b) (fdiv D C)) (fexp (fmul (fneg a) (fsq b))))
                           (fmul (Fin 2) a)))
                  (fsq b)
      in (E1, EXX, EX2))"

definition computeIntegrals ::
  "(real \<Rightarrow> real) \<Rightarrow> fl list list \<Rightarrow> fl list list \<Rightarrow> fl \<Rightarrow>
   error + (fl list list \<times> fl list list \<times> fl list list)" where
  "computeIntegrals erf mu sigma decay_coef =
     (if \<not> list_all (\<lambda>s. fless (Fin 0) s) (concat sigma) then
        Inl (SigmaError (length (filter (\<lambda>s. fless s (Fin 0)) (concat sigma)))
                        (length (filter (\<lambda>s. fless (fabs s) (Fin (1 / 10 ^ 6))) (concat sigma))))
      else if \<not> fless (Fin 0) decay_coef then Inl AssertionError
      else Inr (emap2 (\<lambda>m s. fst (integrals_entry erf decay_coef m s)) mu sigma,
                emap2 (\<lambda>m s. fst (snd (integrals_entry erf decay_coef m s))) mu sigma,
                emap2 (\<lambda>m s. snd (snd (integrals_entry erf decay_coef m s))) mu sigma))"

section \<open>computePosteriorLogZProbability\<close>

definition computePosteriorLogZProbability ::
  "fl list list \<Rightarrow> fl list list \<Rightarrow> fl list list \<Rightarrow> fl list \<Rightarrow> fl \<Rightarrow> fl list list \<Rightarrow> fl list list" where
  "computePosteriorLogZProbability Y cluster_mus cluster_sigmas cluster_weights decay_coef E1 =
     (let N = length Y;
          K = ncols cluster_mus;
          Y_is_zero = emap (\<lambda>y. fless (fabs y) (Fin (1 / 10 ^ 6))) Y;
          not_Y_is_zero = emap (\<lambda>z. of_bool_fl (\<not> z)) Y_is_zero;
          zero_ps = emap nan_to_num (dot (emap of_bool_fl Y_is_zero) (emap flog E1));
          cluster_weights_matrix = replicate N (map flog cluster_weights);
          decay_matrix =
            map (\<lambda>row. replicate K (fsum row))
              (emap nan_to_num
                 (emap2 fmul not_Y_is_zero
                    (emap (\<lambda>y. flog (fsub (Fin 1) (fexp (fmul (fneg decay_coef) (fsq y))))) Y)));
          normalization_matrix =
            dot not_Y_is_zero
              (emap (\<lambda>s. flog (fdiv (Fin 1) (fsqrt (fmul (fmul (Fin 2) (Fin pi)) (fsq s)))))
                 cluster_sigmas);
          probs =
            map2 (\<lambda>y nz.
                map2 (\<lambda>mu sigma.
                    fneg (fsum (map2 fmul nz
                      (map2 fdiv (map2 (\<lambda>y1 m. fsq (fsub y1 m)) y mu)
                                 (map (\<lambda>s. fmul (Fin 2) (fsq s)) sigma)))))
                  (columns cluster_mus) (columns cluster_sigmas))
              Y not_Y_is_zero
      in emap2 fadd
           (emap2 fadd
              (emap2 fadd (emap2 fadd cluster_weights_matrix zero_ps) normalization_matrix)
              decay_matrix)
           probs)"

section \<open>Estep\<close>

text \<open>\<open>W[i, :].max()\<close>: numpy's maximum raises on an empty row and lets a NaN through.\<close>

definition npmax :: "fl list \<Rightarrow> error + fl" where
  "npmax row =
     (case row of
        [] \<Rightarrow> Inl ValueError
      | x # xs \<Rightarrow>
          Inr (foldl (\<lambda>best y. if isnan best then best else if isnan y then y
                                else if fless best y then y else best) x xs))"

text \<open>The loop of lines 96 to 99, row by row.\<close>

fun normalize_rows :: "fl list list \<Rightarrow> error + fl list list" where
  "normalize_rows [] = Inr []"
| "normalize_rows (row # rows) =
     (case npmax row of
        Inl e \<Rightarrow> Inl e
      | Inr m \<Rightarrow>
          (let row1 = map (\<lambda>x. fsub x m) row;
               row2 = map fexp row1;
               row3 = map (\<lambda>x. fdiv x (fsum row2)) row2
           in case normalize_rows rows of
                Inl e \<Rightarrow> Inl e
              | Inr rows' \<Rightarrow> Inr (row3 # rows')))"

definition Estep ::
  "(real \<Rightarrow> real) \<Rightarrow> fl list list \<Rightarrow> fl list list \<Rightarrow> fl list list \<Rightarrow> fl list \<Rightarrow> fl \<Rightarrow>
   error + (fl list list \<times> fl \<times> fl list list \<times> fl list list \<times> fl list list)" where
  "Estep erf Y cluster_mus cluster_sigmas cluster_weights decay_coef =
     (case computeIntegrals erf cluster_mus cluster_sigmas decay_coef of
        Inl e \<Rightarrow> Inl e
      | Inr (E1, EXX, EX2) \<Rightarrow>
     (case checkNoNans [concat E1, concat EXX, concat EX2] of
        Inl e \<Rightarrow> Inl e
      | Inr _ \<Rightarrow>
     (let W = computePosteriorLogZProbability Y cluster_mus cluster_sigmas cluster_weights
                decay_coef E1
      in case computeLLFromW W of
           Inl e \<Rightarrow> Inl e
         | Inr ll \<Rightarrow>
             if isinf ll then Inl AssertionError
             else (case normalize_rows W of
                     Inl e \<Rightarrow> Inl e
                   | Inr W' \<Rightarrow>
                       (case checkNoNans [concat W'] of
                          Inl e \<Rightarrow> Inl e
                        | Inr _ \<Rightarrow> Inr (W', ll, E1, EXX, EX2))))))"


section \<open>Mstep\<close>

text \<open>The objective and gradient handed to the minimizer; \<open>x\<close> is the candidate lambda.\<close>

definition decayCoefObjectiveFn ::
  "fl \<Rightarrow> fl \<Rightarrow> fl list list \<Rightarrow> bool list list \<Rightarrow> fl list list \<Rightarrow> fl \<times> fl" where
  "decayCoefObjectiveFn x term_1 Y Y_is_zero W =
     (let exp_Y_squared = emap (\<lambda>y. fexp (fmul (fneg x) (fsq y))) Y;
          log_exp_Y = emap (\<lambda>e. nan_to_num (flog (fsub (Fin 1) e))) exp_Y_squared;
          exp_ratio = emap (\<lambda>e. nan_to_num (fdiv e (fsub (Fin 1) e))) exp_Y_squared;
          one_minus = emap (\<lambda>z. fsub (Fin 1) (of_bool_fl z)) Y_is_zero;
          obj = fadd (fmul x term_1)
                  (fsum (concat (dot (columns W) (emap2 fmul one_minus log_exp_Y))));
          grad = fadd term_1
                   (fsum (concat (dot (columns W) (emap2 fmul (emap2 fmul one_minus Y) exp_ratio))))
      in (fneg obj, fneg grad))"

text \<open>
  \<open>scipy.optimize.minimize\<close> is a library function: the model takes it as the parameter
  \<open>minimize\<close>, called with the objective (which returns value and gradient, \<open>jac = True\<close>),
  the starting point and the lower bound of \<open>bounds = [[1e-4, np.inf]]\<close>; its value is the
  \<open>x[0]\<close> of the result.

  The sums over the sample axis of the \<open>N \<times> D \<times> K\<close> arrays are written at each \<open>(d, k)\<close>.
\<close>

definition Mstep ::
  "((fl \<Rightarrow> fl \<times> fl) \<Rightarrow> fl \<Rightarrow> fl \<Rightarrow> fl) \<Rightarrow> fl list list \<Rightarrow> fl list list \<Rightarrow> fl list list \<Rightarrow>
   fl list list \<Rightarrow> fl list list \<Rightarrow> fl list list \<Rightarrow> fl list \<Rightarrow> fl \<Rightarrow>
   fl list list \<times> fl list list \<times> fl list \<times> fl" where
  "Mstep minimize Y W EXX EX2 cluster_mus cluster_sigmas cluster_weights decay_coef =
     (let N = length Y;
          D = length EXX;
          K = ncols EXX;
          unnormalized_cluster_weights = map fsum (columns W);
          Y_is_zero = emap (\<lambda>y. fless (fabs y) (Fin (1 / 10 ^ 6))) Y;
          z = (\<lambda>i d. of_bool_fl (Y_is_zero ! i ! d));
          nz = (\<lambda>i d. fsub (Fin 1) (of_bool_fl (Y_is_zero ! i ! d)));
          nonzero_mus = dot (columns (emap2 fmul (emap (\<lambda>b. fsub (Fin 1) (of_bool_fl b)) Y_is_zero) Y)) W;
          zero_mus =
            map (\<lambda>d. map (\<lambda>k.
                fsum (map (\<lambda>i. fmul (fmul (z i d) (W ! i ! k)) (EXX ! d ! k)) [0..<N]))
              [0..<K]) [0..<D];
          new_cluster_mus =
            map2 (\<lambda>r1 r2. map2 fdiv (map2 fadd r1 r2) unnormalized_cluster_weights)
              nonzero_mus zero_mus;
          mu = (\<lambda>d k. new_cluster_mus ! d ! k);
          sigmas1 =
            map (\<lambda>d. map (\<lambda>k.
                fsum (map (\<lambda>i. fmul (fmul (nz i d) (W ! i ! k)) (fsq (fsub (Y ! i ! d) (mu d k))))
                  [0..<N]))
              [0..<K]) [0..<D];
          sigmas2 =
            map (\<lambda>d. map (\<lambda>k.
                fsum (map (\<lambda>i. fmul (fmul (z i d) (W ! i ! k))
                        (fadd (fsub (EX2 ! d ! k) (fmul (fmul (Fin 2) (mu d k)) (EXX ! d ! k)))
                              (fsq (mu d k))))
                  [0..<N]))
              [0..<K]) [0..<D];
          new_cluster_sigmas =
            map2 (\<lambda>r1 r2. map2 (\<lambda>s u. fsqrt (fdiv s u)) (map2 fadd r1 r2)
                    unnormalized_cluster_weights)
              sigmas1 sigmas2;
          new_cluster_weights =
            map (\<lambda>u. fdiv u (fsum unnormalized_cluster_weights)) unnormalized_cluster_weights;
          term_1 = fsum (concat (emap2 fmul (emap of_bool_fl Y_is_zero)
                     (dot (emap fneg W) (columns EX2))));
          new_decay_coef =
            minimize (\<lambda>x. decayCoefObjectiveFn x term_1 Y Y_is_zero W) decay_coef
              (Fin (1 / 10 ^ 4))
      in (new_cluster_mus, new_cluster_sigmas, new_cluster_weights, new_decay_coef))"

section \<open>fitModel\<close>

text \<open>\<open>np.argmax\<close> of a row: the first index of the maximum, a NaN counting as the maximum;
  it raises on an empty row.\<close>

fun argmax_from :: "nat \<Rightarrow> nat \<Rightarrow> fl \<Rightarrow> fl list \<Rightarrow> nat" where
  "argmax_from i best_i best [] = best_i"
| "argmax_from i best_i best (x # xs) =
     (if \<not> isnan best \<and> (isnan x \<or> fless best x) then argmax_from (Suc i) i x xs
      else argmax_from (Suc i) best_i best xs)"

definition argmax :: "fl list \<Rightarrow> error + nat" where
  "argmax row = (case row of [] \<Rightarrow> Inl ValueError | x # xs \<Rightarrow> Inr (argmax_from 1 0 x xs))"

fun zhat_of :: "fl list list \<Rightarrow> error + nat list" where
  "zhat_of [] = Inr []"
| "zhat_of (row # rows) =
     (case argmax row of
        Inl e \<Rightarrow> Inl e
      | Inr j \<Rightarrow> (case zhat_of rows of Inl e \<Rightarrow> Inl e | Inr js \<Rightarrow> Inr (j # js)))"

text \<open>
  The variables of \<open>fitModel\<close> that the loop updates. \<open>estep_log\<close> is not a variable of the
  source: it records the likelihood of every call of \<open>Estep\<close> that returned, in order of
  completion, so that the calls can be counted and compared with \<open>lls\<close>.
\<close>

record fit_state =
  cluster_mus :: "fl list list"
  cluster_sigmas :: "fl list list"
  cluster_weights :: "fl list"
  decay_coef :: fl
  lls :: "fl list"
  clusterings :: "nat list list"
  estep_log :: "fl list"

text \<open>
  One execution of the body of the \<open>while\<close> loop (lines 266 to 286). It raises, or gives
  the updated variables and whether the loop was left by \<open>break\<close>. The printing under
  \<open>verbose\<close> has no effect on the result and is left out.
\<close>

definition fit_iter ::
  "(real \<Rightarrow> real) \<Rightarrow> ((fl \<Rightarrow> fl \<times> fl) \<Rightarrow> fl \<Rightarrow> fl \<Rightarrow> fl) \<Rightarrow> fl list list \<Rightarrow> int \<Rightarrow> fl \<Rightarrow> int \<Rightarrow>
   fit_state \<Rightarrow> error + (fit_state \<times> bool)" where
  "fit_iter erf minimize Y max_iter ll_delta_thresh n_iter st =
     (case Estep erf Y (cluster_mus st) (cluster_sigmas st) (cluster_weights st) (decay_coef st) of
        Inl e \<Rightarrow> Inl e
      | Inr (W, ll, E1, EXX, EX2) \<Rightarrow>
     (let lls' = lls st @ [ll] in
      case Mstep minimize Y W EXX EX2 (cluster_mus st) (cluster_sigmas st) (cluster_weights st)
             (decay_coef st) of
        (mus', sigmas', weights', decay') \<Rightarrow>
     (case checkNoNans [concat W, concat EXX, concat EX2, concat mus', concat sigmas', weights',
                        [decay']] of
        Inl e \<Rightarrow> Inl e
      | Inr _ \<Rightarrow>
     (case zhat_of W of
        Inl e \<Rightarrow> Inl e
      | Inr zhat \<Rightarrow>
     (let st' = \<lparr>cluster_mus = mus', cluster_sigmas = sigmas', cluster_weights = weights',
                 decay_coef = decay', lls = lls', clusterings = clusterings st @ [zhat],
                 estep_log = estep_log st @ [ll]\<rparr>
      in if 2 \<le> length lls' \<and> fless (last lls') (last (butlast lls')) then
           Inl (LikelihoodError (last (butlast lls')) (last lls'))
         else if 2 \<le> length lls' \<and>
                 fless (fabs (fsub (last lls') (last (butlast lls')))) ll_delta_thresh then
           Inr (st', True)
         else if max_iter \<le> n_iter then Inr (st', True)
         else Inr (st', False))))))"

text \<open>The \<open>while n_iter < max_iter\<close> loop.\<close>

function fit_loop ::
  "(real \<Rightarrow> real) \<Rightarrow> ((fl \<Rightarrow> fl \<times> fl) \<Rightarrow> fl \<Rightarrow> fl \<Rightarrow> fl) \<Rightarrow> fl list list \<Rightarrow> int \<Rightarrow> fl \<Rightarrow> int \<Rightarrow>
   fit_state \<Rightarrow> error + fit_state" where
  "fit_loop erf minimize Y max_iter ll_delta_thresh n_iter st =
     (if n_iter < max_iter then
        (case fit_iter erf minimize Y max_iter ll_delta_thresh n_iter st of
           Inl e \<Rightarrow> Inl e
         | Inr (st', stop) \<Rightarrow>
             if stop then Inr st'
             else fit_loop erf minimize Y max_iter ll_delta_thresh (n_iter + 1) st')
      else Inr st)"
  by pat_completeness auto
termination
  by (relation "measure (\<lambda>(erf, minimize, Y, max_iter, ll_delta_thresh, n_iter, st).
        nat (max_iter - n_iter))") auto

text \<open>
  \<open>fitModel\<close>. The initializer (a Gaussian mixture fit of scikit-learn and a curve fit) is
  outside the program's own code: \<open>init\<close> is the tuple \<open>initalizeParams(Y, K)\<close> returned.
  \<open>fitModel_run\<close> gives the final variables, \<open>estep_log\<close> included, with the final hard
  assignment; \<open>fitModel\<close> gives what the source returns: \<open>zhat\<close> and the dictionary
  \<open>params\<close>, here the five fields \<open>cluster_mus\<close>, \<open>cluster_sigmas\<close>, \<open>cluster_weights\<close>,
  \<open>decay_coef\<close> and \<open>lls\<close>.
\<close>

definition fitModel_run ::
  "(real \<Rightarrow> real) \<Rightarrow> ((fl \<Rightarrow> fl \<times> fl) \<Rightarrow> fl \<Rightarrow> fl \<Rightarrow> fl) \<Rightarrow>
   fl list list \<times> fl list list \<times> fl list \<times> fl \<Rightarrow> fl list list \<Rightarrow> int \<Rightarrow> fl \<Rightarrow>
   error + (nat list \<times> fit_state)" where
  "fitModel_run erf minimize init Y max_iter ll_delta_thresh =
     (case init of (mus0, sigmas0, weights0, decay0) \<Rightarrow>
     (case checkNoNans [concat mus0, concat sigmas0, weights0, [decay0]] of
        Inl e \<Rightarrow> Inl e
      | Inr _ \<Rightarrow>
     (case fit_loop erf minimize Y max_iter ll_delta_thresh 0
             \<lparr>cluster_mus = mus0, cluster_sigmas = sigmas0, cluster_weights = weights0,
              decay_coef = decay0, lls = [], clusterings = [], estep_log = []\<rparr> of
        Inl e \<Rightarrow> Inl e
      | Inr st \<Rightarrow>
     (case Estep erf Y (cluster_mus st) (cluster_sigmas st) (cluster_weights st) (decay_coef st) of
        Inl e \<Rightarrow> Inl e
      | Inr (W, ll, E1, EXX, EX2) \<Rightarrow>
     (case zhat_of W of
        Inl e \<Rightarrow> Inl e
      | Inr zhat \<Rightarrow> Inr (zhat, st\<lparr>estep_log := estep_log st @ [ll]\<rparr>))))))"

definition fitModel ::
  "(real \<Rightarrow> real) \<Rightarrow> ((fl \<Rightarrow> fl \<times> fl) \<Rightarrow> fl \<Rightarrow> fl \<Rightarrow> fl) \<Rightarrow>
   fl list list \<times> fl list list \<times> fl list \<times> fl \<Rightarrow> fl list list \<Rightarrow> int \<Rightarrow> fl \<Rightarrow>
   error + (nat list \<times> fl list list \<times> fl list list \<times> fl list \<times> fl \<times> fl list)" where
  "fitModel erf minimize init Y max_iter ll_delta_thresh =
     (case fitModel_run erf minimize init Y max_iter ll_delta_thresh of
        Inl e \<Rightarrow> Inl e
      | Inr (zhat, st) \<Rightarrow>
          Inr (zhat, cluster_mus st, cluster_sigmas st, cluster_weights st, decay_coef st,
               lls st))"

declare fit_loop.simps [simp del]

section \<open>Yardsticks for the claims\<close>

text \<open>
  The definitions of this section are not functions of the source. \<open>fit_upto k\<close> runs
  the body of the loop at most \<open>k\<close> times, with the \<open>break\<close>s and the errors of the loop
  and without its test of \<open>n_iter\<close>: a loop that equals \<open>fit_upto k\<close> executes its body at
  most \<open>k\<close> times in every run, a run that raises included.
\<close>

fun fit_upto ::
  "nat \<Rightarrow> (real \<Rightarrow> real) \<Rightarrow> ((fl \<Rightarrow> fl \<times> fl) \<Rightarrow> fl \<Rightarrow> fl \<Rightarrow> fl) \<Rightarrow> fl list list \<Rightarrow> int \<Rightarrow> fl \<Rightarrow>
   int \<Rightarrow> fit_state \<Rightarrow> error + fit_state" where
  "fit_upto 0 erf minimize Y max_iter ll_delta_thresh n_iter st = Inr st"
| "fit_upto (Suc k) erf minimize Y max_iter ll_delta_thresh n_iter st =
     (case fit_iter erf minimize Y max_iter ll_delta_thresh n_iter st of
        Inl e \<Rightarrow> Inl e
      | Inr (st', stop) \<Rightarrow>
          if stop then Inr st'
          else fit_upto k erf minimize Y max_iter ll_delta_thresh (n_iter + 1) st')"

text \<open>
  The entry \<open>(i, k)\<close> of the matrix of \<open>computePosteriorLogZProbability\<close> as claim C2 words
  it, following the words of the specification and not the source: the logarithm of the
  weight, plus \<open>log E1\<close> at each censored dimension, plus the Gaussian log-density and the
  decay term at each observed dimension, every term that is not finite being replaced by
  0 before the sum.
\<close>

definition finite_or_zero :: "fl \<Rightarrow> fl" where
  "finite_or_zero x = (if isnan x \<or> isinf x then Fin 0 else x)"

definition spec_posterior_entry ::
  "fl list list \<Rightarrow> fl list list \<Rightarrow> fl list list \<Rightarrow> fl list \<Rightarrow> fl \<Rightarrow> fl list list \<Rightarrow> nat \<Rightarrow> nat \<Rightarrow> fl" where
  "spec_posterior_entry Y mus sigmas weights lam E1 i k =
     fadd (finite_or_zero (flog (weights ! k)))
       (fsum (map (\<lambda>d.
            if fless (fabs (Y ! i ! d)) (Fin (1 / 10 ^ 6)) then
              finite_or_zero (flog (E1 ! d ! k))
            else
              fadd
                (fadd
                   (finite_or_zero
                      (flog (fdiv (Fin 1)
                         (fsqrt (fmul (fmul (Fin 2) (Fin pi)) (fsq (sigmas ! d ! k)))))))
                   (finite_or_zero
                      (fneg (fdiv (fsq (fsub (Y ! i ! d) (mus ! d ! k)))
                         (fmul (Fin 2) (fsq (sigmas ! d ! k)))))))
                (finite_or_zero
                   (flog (fsub (Fin 1) (fexp (fmul (fneg lam) (fsq (Y ! i ! d))))))))
          [0..<length (Y ! i)]))"

text \<open>
  Whether a value is a number: neither NaN nor an infinity.
\<close>

definition finite_fl :: "fl \<Rightarrow> bool" where
  "finite_fl x = (\<not> isnan x \<and> \<not> isinf x)"


text \<open>
  A stand-in for the minimizer in the concrete runs below: it returns the starting point,
  moved onto the lower bound when it lies under it, as an optimizer does that stops at
  once. The runs do not depend on the objective.
\<close>

definition minimize_clip :: "(fl \<Rightarrow> fl \<times> fl) \<Rightarrow> fl \<Rightarrow> fl \<Rightarrow> fl" where
  "minimize_clip f x0 lower = (if fle lower x0 then x0 else lower)"



section \<open>Finite values\<close>

lemma fsub_Fin [simp]: "fsub (Fin a) (Fin b) = Fin (a - b)"
  by (simp add: fsub_def)

lemma fsq_Fin [simp]: "fsq (Fin a) = Fin (a * a)"
  by (simp add: fsq_def)

lemma foldl_fadd_Fin: "foldl fadd (Fin a) (map Fin rs) = Fin (a + sum_list rs)"
  by (induction rs arbitrary: a) (simp_all add: add.assoc)

lemma fsum_Fin: "fsum (map Fin rs) = Fin (sum_list rs)"
  by (simp add: fsum_def foldl_fadd_Fin)

lemma fsum_Fin_map: "fsum (map (\<lambda>x. Fin (f x)) xs) = Fin (\<Sum>x\<leftarrow>xs. f x)"
  using fsum_Fin [of "map f xs"] by (simp add: comp_def)

lemma pymax_Fin: "pymax (Fin a) (map Fin rs) = Fin (Max (set (a # rs)))"
proof -
  have "foldl (\<lambda>best y. if fless best y then y else best) (Fin a) (map Fin rs) =
        Fin (fold max rs a)"
    by (induction rs arbitrary: a) (simp_all add: max_def)
  then show ?thesis
    unfolding pymax_def Max.set_eq_fold by simp
qed

lemma checkNoNans_Fin: "checkNoNans [map Fin rs] = Inr ()"
  by (simp add: checkNoNans_def list_ex_iff)

lemma concat_Fin: "concat (map (map Fin) R) = map Fin (concat R)"
  by (simp add: map_concat)

section \<open>The log-likelihood reduction\<close>

lemma sum_exp_pos:
  assumes "r \<noteq> []"
  shows "0 < (\<Sum>x\<leftarrow>r. exp (x - m :: real))"
  using assms by (cases r) (auto intro!: add_pos_nonneg sum_list_nonneg)

lemma ll_rows_Fin:
  assumes "\<forall>r\<in>set R. r \<noteq> []"
  shows "ll_rows (Fin a) (map (map Fin) R) =
         Inr (Fin (a + (\<Sum>r\<leftarrow>R. Max (set r) + ln (\<Sum>x\<leftarrow>r. exp (x - Max (set r))))))"
  using assms
proof (induction R arbitrary: a)
  case Nil
  then show ?case by simp
next
  case (Cons r R)
  then obtain x xs where r: "r = x # xs"
    by (cases r) auto
  have step: "flog (fsum (map fexp (map (\<lambda>x. fsub x (Fin (Max (set r)))) (map Fin r)))) =
              Fin (ln (\<Sum>y\<leftarrow>r. exp (y - Max (set r))))"
  proof -
    have "r \<noteq> []"
      by (simp add: r)
    then have "0 < (\<Sum>y\<leftarrow>r. exp (y - Max (set r)))"
      by (rule sum_exp_pos)
    then show ?thesis
      by (simp add: comp_def fsum_Fin_map)
  qed
  have "ll_rows (Fin a) (map (map Fin) (r # R)) =
        ll_rows (Fin (a + Max (set r) + ln (\<Sum>y\<leftarrow>r. exp (y - Max (set r)))))
          (map (map Fin) R)"
    using step unfolding r by (simp add: pymax_Fin Let_def del: Max_insert set_simps)
  then show ?case
    using Cons by (simp add: add.assoc)
qed

lemma logsumexp_shift:
  assumes "r \<noteq> []"
  shows "m + ln (\<Sum>x\<leftarrow>r. exp (x - m)) = ln (\<Sum>x\<leftarrow>r. exp (x :: real))"
proof -
  have pos: "0 < (\<Sum>x\<leftarrow>r. exp x)"
    using sum_exp_pos [OF assms, of 0] by simp
  have "(\<Sum>x\<leftarrow>r. exp (x - m)) = (\<Sum>x\<leftarrow>r. exp x) * exp (- m)"
    by (simp add: exp_diff sum_list_mult_const [symmetric] exp_minus divide_inverse)
  then have "ln (\<Sum>x\<leftarrow>r. exp (x - m)) = ln (\<Sum>x\<leftarrow>r. exp x) - m"
    using pos by (simp add: ln_mult)
  then show ?thesis by simp
qed

text \<open>
  Claim C5. For a matrix \<open>W\<close> of finite entries whose rows are not empty (\<open>K \<ge> 1\<close>; on an
  empty row \<open>max\<close> raises), \<open>computeLLFromW\<close> returns the sum over the rows of the row
  maximum plus the logarithm of the sum of the exponentials of the entries minus that
  maximum, and this number is the naive total log-likelihood, the sum over the rows of
  the logarithm of the sum of the exponentials of the entries.
\<close>

theorem computeLLFromW_logsumexp:
  assumes "\<forall>r\<in>set R. r \<noteq> []"
  shows "computeLLFromW (map (map Fin) R) =
           Inr (Fin (\<Sum>r\<leftarrow>R. Max (set r) + ln (\<Sum>x\<leftarrow>r. exp (x - Max (set r)))))
         \<and> (\<Sum>r\<leftarrow>R. Max (set r) + ln (\<Sum>x\<leftarrow>r. exp (x - Max (set r)))) =
           (\<Sum>r\<leftarrow>R. ln (\<Sum>x\<leftarrow>r. exp x))"
proof
  show "computeLLFromW (map (map Fin) R) =
          Inr (Fin (\<Sum>r\<leftarrow>R. Max (set r) + ln (\<Sum>x\<leftarrow>r. exp (x - Max (set r)))))"
    using assms by (simp add: computeLLFromW_def concat_Fin checkNoNans_Fin ll_rows_Fin)
  show "(\<Sum>r\<leftarrow>R. Max (set r) + ln (\<Sum>x\<leftarrow>r. exp (x - Max (set r)))) =
        (\<Sum>r\<leftarrow>R. ln (\<Sum>x\<leftarrow>r. exp x))"
    using assms by (intro arg_cong [where f = sum_list] map_cong refl logsumexp_shift) auto
qed

theorem computeLLFromW_logsumexp_witness:
  "computeLLFromW [[Fin 0, Fin 0], [Fin 1]] = Inr (Fin (ln 2 + 1))"
  using computeLLFromW_logsumexp [of "[[0, 0], [1]]"] by simp

section \<open>The checks and the mass of computeIntegrals\<close>

text \<open>
  Claim C9. \<open>computeIntegrals\<close> raises when some entry of \<open>sigma\<close> is not greater than 0,
  and the error carries the number of entries below 0 and the number of entries of absolute
  value below \<open>1e-6\<close>; it raises when \<open>decay_coef\<close> is not greater than 0; and when every
  entry of \<open>sigma\<close> and \<open>decay_coef\<close> are greater than 0 it raises nothing and returns.
\<close>

theorem computeIntegrals_checks:
  "((\<exists>s\<in>set (concat sigma). \<not> fless (Fin 0) s) \<longrightarrow>
      computeIntegrals erf mu sigma decay =
        Inl (SigmaError (length (filter (\<lambda>s. fless s (Fin 0)) (concat sigma)))
                        (length (filter (\<lambda>s. fless (fabs s) (Fin (1 / 10 ^ 6))) (concat sigma)))))
   \<and> (\<not> fless (Fin 0) decay \<longrightarrow> (\<exists>e. computeIntegrals erf mu sigma decay = Inl e))
   \<and> ((\<forall>s\<in>set (concat sigma). fless (Fin 0) s) \<and> fless (Fin 0) decay \<longrightarrow>
        (\<exists>r. computeIntegrals erf mu sigma decay = Inr r))"
  by (auto simp: computeIntegrals_def list_all_iff)

theorem computeIntegrals_checks_witness:
  "computeIntegrals tanh [[Fin 0, Fin 0, Fin 0]] [[Fin (- 1), Fin 0, Fin 2]] (Fin 1) = Inl (SigmaError 1 1)
   \<and> (\<exists>e. computeIntegrals tanh [[Fin 0]] [[Fin 1]] (Fin 0) = Inl e)
   \<and> (\<exists>r. computeIntegrals tanh [[Fin 0]] [[Fin 1]] (Fin 1) = Inr r)"
  using computeIntegrals_checks [where erf = tanh and mu = "[[Fin 0, Fin 0, Fin 0]]"
      and sigma = "[[Fin (- 1), Fin 0, Fin 2]]" and decay = "Fin 1"]
    computeIntegrals_checks [where erf = tanh and mu = "[[Fin 0]]" and sigma = "[[Fin 1]]"
      and decay = "Fin 0"]
    computeIntegrals_checks [where erf = tanh and mu = "[[Fin 0]]" and sigma = "[[Fin 1]]"
      and decay = "Fin 1"]
  by simp

lemma integrals_entry_valid:
  assumes s: "0 < s" and l: "0 < l" and erf: "\<forall>x. - 1 < erf x \<and> erf x \<le> 1"
  shows "\<exists>e1 ex ex2. integrals_entry erf (Fin l) (Fin m) (Fin s) = (Fin e1, Fin ex, Fin ex2)
           \<and> 0 < e1 \<and> e1 \<le> 1"
proof -
  define q where "q = 1 + 2 * (s * s) * l"
  define a where "a = q / (2 * (s * s))"
  define b where "b = m / (2 * a * (s * s))"
  define D where "D = exp (- (m * m) / (2 * (s * s)) + a * (b * b))"
  define t where "t = b * sqrt a"
  define C where "C = D * sqrt pi * (erf t + 1) / (2 * sqrt a)"
  define e1 where "e1 = C / (sqrt (2 * pi) * s)"
  have s2: "0 < s * s" using s by simp
  have q1: "1 \<le> q" using s2 l by (simp add: q_def)
  have q0: "0 < q" using q1 by simp
  have a0: "0 < a" using q0 s2 by (simp add: a_def)
  have aq: "2 * a * (s * s) = q" using s by (simp add: a_def)
  have D0: "0 < D" by (simp add: D_def)
  have e0: "0 < erf t + 1" and e2: "erf t + 1 \<le> 2" using erf [rule_format, of t] by auto
  have C0: "0 < C" using D0 e0 a0 by (simp add: C_def)
  txt \<open>the floating-point steps\<close>
  have A: "fdiv (fadd (Fin 1) (fmul (fmul (Fin 2) (fsq (Fin s))) (Fin l)))
             (fmul (Fin 2) (fsq (Fin s))) = Fin a"
    using s by (simp add: a_def q_def)
  have B: "fdiv (Fin m) (fmul (fmul (Fin 2) (Fin a)) (fsq (Fin s))) = Fin b"
    using q0 aq by (simp add: b_def)
  have Dd: "fexp (fadd (fdiv (fneg (fsq (Fin m))) (fmul (Fin 2) (fsq (Fin s))))
              (fmul (Fin a) (fsq (Fin b)))) = Fin D"
    using s by (simp add: D_def)
  have Cc: "fdiv (fmul (fmul (Fin D) (fsqrt (Fin pi)))
              (fadd (ferf erf (fmul (Fin b) (fsqrt (Fin a)))) (Fin 1)))
              (fmul (Fin 2) (fsqrt (Fin a))) = Fin C"
    using a0 by (simp add: C_def t_def less_imp_le)
  have E: "fdiv (Fin C) (fmul (fsqrt (fmul (Fin 2) (Fin pi))) (Fin s)) = Fin e1"
    using s by (simp add: e1_def)
  have DC: "fdiv (Fin D) (Fin C) = Fin (D / C)"
    using C0 by simp
  have P: "fpow15 (Fin a) = Fin (a powr (3 / 2))"
    using a0 by (simp add: less_imp_le)
  have P0: "a powr (3 / 2) \<noteq> 0" using a0 by simp
  have X: "\<exists>ex. fadd (fdiv (fmul (Fin (D / C)) (fexp (fmul (fneg (Fin a)) (fsq (Fin b)))))
              (fmul (Fin 2) (Fin a))) (Fin b) = Fin ex"
    using a0 by simp
  have X2: "\<exists>ex2. fadd
                  (fadd
                     (fmul (Fin (D / C))
                        (fsub
                           (fsub (fdiv (fsqrt (Fin pi)) (fmul (Fin 4) (Fin (a powr (3 / 2)))))
                                 (fdiv (fmul (fsqrt (Fin pi)) (ferf erf (fmul (fneg (Fin b)) (fsqrt (Fin a)))))
                                       (fmul (Fin 4) (Fin (a powr (3 / 2))))))
                           (fdiv (fmul (Fin b) (fexp (fmul (fneg (Fin a)) (fsq (Fin b))))) (fmul (Fin 2) (Fin a)))))
                     (fdiv (fmul (fmul (fmul (Fin 2) (Fin b)) (Fin (D / C))) (fexp (fmul (fneg (Fin a)) (fsq (Fin b)))))
                           (fmul (Fin 2) (Fin a))))
                  (fsq (Fin b)) = Fin ex2"
    using a0 P0 by (simp add: less_imp_le)
  from X obtain ex where X': "fadd (fdiv (fmul (Fin (D / C)) (fexp (fmul (fneg (Fin a)) (fsq (Fin b)))))
              (fmul (Fin 2) (Fin a))) (Fin b) = Fin ex" ..
  from X2 obtain ex2 where X2': "fadd
                  (fadd
                     (fmul (Fin (D / C))
                        (fsub
                           (fsub (fdiv (fsqrt (Fin pi)) (fmul (Fin 4) (Fin (a powr (3 / 2)))))
                                 (fdiv (fmul (fsqrt (Fin pi)) (ferf erf (fmul (fneg (Fin b)) (fsqrt (Fin a)))))
                                       (fmul (Fin 4) (Fin (a powr (3 / 2))))))
                           (fdiv (fmul (Fin b) (fexp (fmul (fneg (Fin a)) (fsq (Fin b))))) (fmul (Fin 2) (Fin a)))))
                     (fdiv (fmul (fmul (fmul (Fin 2) (Fin b)) (Fin (D / C))) (fexp (fmul (fneg (Fin a)) (fsq (Fin b)))))
                           (fmul (Fin 2) (Fin a))))
                  (fsq (Fin b)) = Fin ex2" ..
  have val: "integrals_entry erf (Fin l) (Fin m) (Fin s) = (Fin e1, Fin ex, Fin ex2)"
    unfolding integrals_entry_def Let_def A B Dd Cc E DC P X' X2' ..
  txt \<open>the bounds on the mass\<close>
  have b: "b = m / q" by (simp add: b_def aq)
  have "a * (b * b) = (m * m) / (2 * (s * s)) / q"
    using q0 s2 by (simp add: b a_def field_simps)
  moreover have "(m * m) / (2 * (s * s)) / q \<le> (m * m) / (2 * (s * s)) / 1"
  proof (rule frac_le)
    show "0 \<le> m * m / (2 * (s * s))" by simp
  qed (use q1 in auto)
  ultimately have "- (m * m) / (2 * (s * s)) + a * (b * b) \<le> 0" by simp
  then have D1: "D \<le> 1" by (simp add: D_def)
  have den: "2 * sqrt a * (sqrt (2 * pi) * s) = 2 * sqrt pi * sqrt q"
  proof -
    have "sqrt a * sqrt 2 * s = sqrt (a * 2 * (s * s))"
      using s by (simp add: real_sqrt_mult)
    also have "a * 2 * (s * s) = q" using aq by simp
    finally show ?thesis by (simp add: real_sqrt_mult)
  qed
  have E': "e1 = D * (erf t + 1) / (2 * sqrt q)"
  proof -
    have "e1 = D * sqrt pi * (erf t + 1) / (2 * sqrt a * (sqrt (2 * pi) * s))"
      by (simp add: e1_def C_def)
    also have "\<dots> = D * sqrt pi * (erf t + 1) / (2 * sqrt pi * sqrt q)"
      by (simp only: den)
    also have "\<dots> = D * (erf t + 1) / (2 * sqrt q)"
      by simp
    finally show ?thesis .
  qed
  have sq: "1 \<le> sqrt q" using q1 by simp
  have pos: "0 < e1"
    unfolding E' using D0 e0 q0 by simp
  have "D * (erf t + 1) \<le> 1 * 2"
    using D0 D1 e0 e2 by (intro mult_mono) auto
  also have "\<dots> \<le> 2 * sqrt q" using sq by simp
  finally have "e1 \<le> 1"
    unfolding E' using q0 by simp
  with pos val show ?thesis by blast
qed


lemma in_concat_emap2:
  assumes "x \<in> set (concat (emap2 f A B))"
  shows "\<exists>a\<in>set (concat A). \<exists>b\<in>set (concat B). x = f a b"
proof -
  from assms have "\<exists>r\<in>set (map2 (map2 f) A B). x \<in> set r"
    unfolding emap2_def set_concat by blast
  then obtain r where r: "r \<in> set (map2 (map2 f) A B)" and x: "x \<in> set r" ..
  from r obtain ra rb where rab: "(ra, rb) \<in> set (zip A B)" and r': "r = map2 f ra rb"
    by auto
  from x r' obtain a b where ab: "(a, b) \<in> set (zip ra rb)" and x': "x = f a b"
    by auto
  have "ra \<in> set A" "rb \<in> set B" using rab by (auto dest: set_zip_leftD set_zip_rightD)
  moreover have "a \<in> set ra" "b \<in> set rb" using ab by (auto dest: set_zip_leftD set_zip_rightD)
  ultimately show ?thesis using x' by auto
qed



lemma tanh_range: "\<forall>x::real. - 1 < tanh x \<and> tanh x \<le> 1"
  by (simp add: tanh_real_gt_neg1 tanh_real_lt_1 less_imp_le)








section \<open>What Estep returns\<close>

lemma finite_list_Fin:
  assumes "\<not> list_ex isnan xs" "\<not> list_ex isinf xs"
  shows "\<exists>rs. xs = map Fin rs"
  using assms
proof (induction xs)
  case Nil
  then show ?case by simp
next
  case (Cons x xs)
  then obtain rs where "xs = map Fin rs" by auto
  moreover obtain r where "x = Fin r" using Cons.prems by (cases x) auto
  ultimately have "x # xs = map Fin (r # rs)" by simp
  then show ?case by (rule exI)
qed

lemma finite_matrix_Fin:
  assumes "\<forall>row\<in>set W. \<exists>rs. row = map Fin rs"
  shows "\<exists>R. W = map (map Fin) R"
  using assms
proof (induction W)
  case Nil
  then show ?case by simp
next
  case (Cons row W)
  then obtain R where "W = map (map Fin) R" by auto
  moreover obtain rs where "row = map Fin rs" using Cons.prems by auto
  ultimately have "row # W = map (map Fin) (rs # R)" by simp
  then show ?case by (rule exI)
qed

lemma checkNoNans_single:
  "checkNoNans [M] = Inr u \<longleftrightarrow> (\<not> list_ex isnan M \<and> \<not> list_ex isinf M)"
  by (auto simp: checkNoNans_def)

lemma checkNoNans_matrix_Fin:
  assumes "checkNoNans [concat W] = Inr u"
  shows "\<exists>R. W = map (map Fin) R"
proof (rule finite_matrix_Fin, rule ballI)
  fix row assume "row \<in> set W"
  then have "\<not> list_ex isnan row" "\<not> list_ex isinf row"
    using assms unfolding checkNoNans_single by (auto simp: list_ex_iff)
  then show "\<exists>rs. row = map Fin rs" by (rule finite_list_Fin)
qed

lemma ll_rows_nonempty:
  assumes "ll_rows a W = Inr ll"
  shows "\<forall>row\<in>set W. row \<noteq> []"
  using assms
proof (induction a W rule: ll_rows.induct)
  case (3 ll w ws rows)
  then show ?case by (simp add: Let_def)
qed simp_all

lemma computeLLFromW_returns:
  assumes "computeLLFromW W = Inr ll"
  shows "\<exists>R. W = map (map Fin) R \<and> (\<forall>r\<in>set R. r \<noteq> [])
           \<and> ll = Fin (\<Sum>r\<leftarrow>R. Max (set r) + ln (\<Sum>x\<leftarrow>r. exp (x - Max (set r))))"
proof -
  from assms have chk: "checkNoNans [concat W] = Inr ()" and rows: "ll_rows (Fin 0) W = Inr ll"
    by (auto simp: computeLLFromW_def split: sum.splits)
  from checkNoNans_matrix_Fin [OF chk] obtain R where R: "W = map (map Fin) R" ..
  have ne: "\<forall>r\<in>set R. r \<noteq> []"
    using ll_rows_nonempty [OF rows] unfolding R by auto
  from ll_rows_Fin [OF ne, of 0] rows have "ll = Fin (\<Sum>r\<leftarrow>R. Max (set r) + ln (\<Sum>x\<leftarrow>r. exp (x - Max (set r))))"
    unfolding R by simp
  with R ne show ?thesis by blast
qed

lemma npmax_Fin:
  assumes "r \<noteq> []"
  shows "npmax (map Fin r) = Inr (Fin (Max (set r)))"
proof -
  from assms obtain a rs where r: "r = a # rs" by (cases r) auto
  have "foldl (\<lambda>best y. if isnan best then best else if isnan y then y
                                else if fless best y then y else best) (Fin a) (map Fin rs) =
        Fin (fold max rs a)"
    by (induction rs arbitrary: a) (simp_all add: max_def)
  then show ?thesis
    unfolding r npmax_def Max.set_eq_fold by simp
qed

lemma computeLLFromW_Fin:
  assumes "\<forall>r\<in>set R. r \<noteq> []"
  shows "computeLLFromW (map (map Fin) R) =
           Inr (Fin (\<Sum>r\<leftarrow>R. Max (set r) + ln (\<Sum>x\<leftarrow>r. exp (x - Max (set r)))))"
  using assms by (simp add: computeLLFromW_def concat_Fin checkNoNans_Fin ll_rows_Fin)

lemma normalize_rows_Fin:
  assumes "\<forall>r\<in>set R. r \<noteq> []"
  shows "normalize_rows (map (map Fin) R) =
         Inr (map (map Fin)
           (map (\<lambda>r. map (\<lambda>x. exp (x - Max (set r)) / (\<Sum>y\<leftarrow>r. exp (y - Max (set r)))) r) R))"
  using assms
proof (induction R)
  case Nil
  then show ?case by simp
next
  case (Cons r R)
  then have ne: "r \<noteq> []" by simp
  let ?m = "Max (set r)"
  let ?s = "\<Sum>y\<leftarrow>r. exp (y - ?m)"
  let ?soft = "\<lambda>r. map (\<lambda>x. exp (x - Max (set r)) / (\<Sum>y\<leftarrow>r. exp (y - Max (set r)))) r"
  have pos: "0 < ?s" using ne by (rule sum_exp_pos)
  have e: "map fexp (map (\<lambda>x. fsub x (Fin ?m)) (map Fin r)) = map (\<lambda>x. Fin (exp (x - ?m))) r"
    by (simp add: comp_def)
  have s: "fsum (map (\<lambda>x. Fin (exp (x - ?m))) r) = Fin ?s"
    by (rule fsum_Fin_map)
  have d: "map (\<lambda>x. fdiv x (Fin ?s)) (map (\<lambda>x. Fin (exp (x - ?m))) r) = map Fin (?soft r)"
    using pos by (simp add: comp_def)
  have IH: "normalize_rows (map (map Fin) R) = Inr (map (map Fin) (map ?soft R))"
    using Cons by simp
  have "normalize_rows (map Fin r # map (map Fin) R) =
        Inr (map Fin (?soft r) # map (map Fin) (map ?soft R))"
    unfolding normalize_rows.simps npmax_Fin [OF ne] Let_def sum.case e s d IH ..
  then show ?case by simp
qed

lemma softmax_row_stochastic:
  fixes r :: "real list"
  assumes "r \<noteq> []"
  shows "(\<forall>p\<in>set (map (\<lambda>x. exp (x - Max (set r)) / (\<Sum>y\<leftarrow>r. exp (y - Max (set r)))) r). 0 < p)
         \<and> (\<Sum>x\<leftarrow>r. exp (x - Max (set r)) / (\<Sum>y\<leftarrow>r. exp (y - Max (set r)))) = 1"
proof -
  let ?m = "Max (set r)"
  let ?s = "\<Sum>y\<leftarrow>r. exp (y - ?m)"
  have pos: "0 < ?s" using assms by (rule sum_exp_pos)
  have "(\<Sum>x\<leftarrow>r. exp (x - ?m) / ?s) = (\<Sum>x\<leftarrow>r. exp (x - ?m) * (1 / ?s))"
    by simp
  also have "\<dots> = ?s * (1 / ?s)"
    by (rule sum_list_mult_const)
  also have "\<dots> = 1" using pos by simp
  finally have "(\<Sum>x\<leftarrow>r. exp (x - ?m) / ?s) = 1" .
  moreover have "\<forall>p\<in>set (map (\<lambda>x. exp (x - ?m) / ?s) r). 0 < p"
    using pos by auto
  ultimately show ?thesis by simp
qed

lemma Estep_returns:
  assumes "Estep erf Y mus sigmas weights decay = Inr (W, ll, E1, EXX, EX2)"
  shows "\<exists>R. computeIntegrals erf mus sigmas decay = Inr (E1, EXX, EX2)
            \<and> checkNoNans [concat E1, concat EXX, concat EX2] = Inr ()
            \<and> computePosteriorLogZProbability Y mus sigmas weights decay E1 = map (map Fin) R
            \<and> (\<forall>r\<in>set R. r \<noteq> [])
            \<and> ll = Fin (\<Sum>r\<leftarrow>R. Max (set r) + ln (\<Sum>x\<leftarrow>r. exp (x - Max (set r))))
            \<and> W = map (map Fin)
                 (map (\<lambda>r. map (\<lambda>x. exp (x - Max (set r)) / (\<Sum>y\<leftarrow>r. exp (y - Max (set r)))) r) R)"
proof -
  let ?W0 = "computePosteriorLogZProbability Y mus sigmas weights decay E1"
  from assms have ci: "computeIntegrals erf mus sigmas decay = Inr (E1, EXX, EX2)"
    by (auto simp: Estep_def Let_def split: sum.splits prod.splits if_splits)
  from assms ci have chk: "checkNoNans [concat E1, concat EXX, concat EX2] = Inr ()"
    by (auto simp: Estep_def Let_def split: sum.splits prod.splits if_splits)
  from assms ci chk have cl: "computeLLFromW ?W0 = Inr ll"
    by (auto simp: Estep_def Let_def split: sum.splits prod.splits if_splits)
  from assms ci chk cl have nr: "normalize_rows ?W0 = Inr W"
    by (auto simp: Estep_def Let_def split: sum.splits prod.splits if_splits)
  from computeLLFromW_returns [OF cl] obtain R where R: "?W0 = map (map Fin) R"
    and ne: "\<forall>r\<in>set R. r \<noteq> []"
    and ll: "ll = Fin (\<Sum>r\<leftarrow>R. Max (set r) + ln (\<Sum>x\<leftarrow>r. exp (x - Max (set r))))"
    by blast
  from nr normalize_rows_Fin [OF ne]
  have "W = map (map Fin)
          (map (\<lambda>r. map (\<lambda>x. exp (x - Max (set r)) / (\<Sum>y\<leftarrow>r. exp (y - Max (set r)))) r) R)"
    unfolding R by simp
  with ci chk R ne ll show ?thesis by blast
qed

lemma Estep_from_parts:
  assumes "computeIntegrals erf mus sigmas decay = Inr (E1, EXX, EX2)"
    and "checkNoNans [concat E1, concat EXX, concat EX2] = Inr ()"
    and "computePosteriorLogZProbability Y mus sigmas weights decay E1 = map (map Fin) R"
    and "\<forall>r\<in>set R. r \<noteq> []"
  shows "Estep erf Y mus sigmas weights decay =
           Inr (map (map Fin)
                  (map (\<lambda>r. map (\<lambda>x. exp (x - Max (set r)) / (\<Sum>y\<leftarrow>r. exp (y - Max (set r)))) r) R),
                Fin (\<Sum>r\<leftarrow>R. Max (set r) + ln (\<Sum>x\<leftarrow>r. exp (x - Max (set r)))),
                E1, EXX, EX2)"
proof -
  have "checkNoNans [concat (map (map Fin)
          (map (\<lambda>r. map (\<lambda>x. exp (x - Max (set r)) / (\<Sum>y\<leftarrow>r. exp (y - Max (set r)))) r) R))] = Inr ()"
    unfolding concat_Fin by (rule checkNoNans_Fin)
  then show ?thesis
    by (simp add: Estep_def assms(1) assms(2) assms(3) Let_def
      computeLLFromW_Fin [OF assms(4)] normalize_rows_Fin [OF assms(4)])
qed

lemma zero_times_log [simp]: "nan_to_num (fadd (Fin 0) (fmul (Fin 0) (flog (Fin e)))) = Fin 0"
  by (simp add: signed_inf_def)

lemma length_scorer:
  "length (computePosteriorLogZProbability Y mus sigmas weights decay E1) = length Y"
  by (simp add: computePosteriorLogZProbability_def Let_def emap_def emap2_def dot_def)

text \<open>
  Claim C6. The matrix \<open>W\<close> that \<open>Estep\<close> returns has one row for each row of \<open>Y\<close>, and each
  row consists of numbers that are not negative and sum to 1 (in exact arithmetic). This
  holds for every call that returns, whatever the arguments; a call with finite \<open>Y\<close> and
  valid parameters is one of them.
\<close>

theorem Estep_row_stochastic:
  assumes "Estep erf Y mus sigmas weights decay = Inr (W, ll, E1, EXX, EX2)"
  shows "length W = length Y
         \<and> (\<forall>row\<in>set W. \<exists>ps. row = map Fin ps \<and> (\<forall>p\<in>set ps. 0 \<le> p) \<and> sum_list ps = 1)"
proof -
  let ?soft = "\<lambda>r::real list. map (\<lambda>x. exp (x - Max (set r)) / (\<Sum>y\<leftarrow>r. exp (y - Max (set r)))) r"
  from Estep_returns [OF assms] obtain R
    where W0: "computePosteriorLogZProbability Y mus sigmas weights decay E1 = map (map Fin) R"
      and ne: "\<forall>r\<in>set R. r \<noteq> []"
      and W: "W = map (map Fin) (map ?soft R)"
    by blast
  have "length W = length R" by (simp add: W)
  also have "\<dots> = length Y"
    using length_scorer [of Y mus sigmas weights decay E1] by (simp add: W0)
  finally have len: "length W = length Y" .
  have "\<exists>ps. row = map Fin ps \<and> (\<forall>p\<in>set ps. 0 \<le> p) \<and> sum_list ps = 1" if "row \<in> set W" for row
  proof -
    from that obtain r where r: "r \<in> set R" and row: "row = map Fin (?soft r)"
      by (auto simp: W)
    from r ne have "r \<noteq> []" by blast
    from softmax_row_stochastic [OF this]
    have "(\<forall>p\<in>set (?soft r). 0 \<le> p) \<and> sum_list (?soft r) = 1"
      by (auto intro: less_imp_le)
    with row show ?thesis by blast
  qed
  with len show ?thesis by blast
qed

lemma computeIntegrals_1_2:
  assumes "0 < s1" "0 < s2" "0 < l" "\<forall>x. - 1 < erf x \<and> erf x \<le> 1"
  shows "\<exists>a1 a2 b1 b2 c1 c2. computeIntegrals erf [[Fin m1, Fin m2]] [[Fin s1, Fin s2]] (Fin l) =
           Inr ([[Fin a1, Fin a2]], [[Fin b1, Fin b2]], [[Fin c1, Fin c2]])"
proof -
  from integrals_entry_valid [OF assms(1,3,4), of m1] obtain a1 b1 c1
    where 1: "integrals_entry erf (Fin l) (Fin m1) (Fin s1) = (Fin a1, Fin b1, Fin c1)" by blast
  from integrals_entry_valid [OF assms(2,3,4), of m2] obtain a2 b2 c2
    where 2: "integrals_entry erf (Fin l) (Fin m2) (Fin s2) = (Fin a2, Fin b2, Fin c2)" by blast
  have "computeIntegrals erf [[Fin m1, Fin m2]] [[Fin s1, Fin s2]] (Fin l) =
           Inr ([[Fin a1, Fin a2]], [[Fin b1, Fin b2]], [[Fin c1, Fin c2]])"
    using assms(1,2,3) by (simp add: computeIntegrals_def emap2_def 1 2)
  then show ?thesis by blast
qed

lemma scorer_1_1_2:
  assumes "1 / 10 ^ 6 \<le> \<bar>y\<bar>" "0 < s1" "0 < s2" "0 < l" "0 < w1" "0 < w2"
  shows "\<exists>x1 x2. computePosteriorLogZProbability [[Fin y]] [[Fin m1, Fin m2]] [[Fin s1, Fin s2]]
           [Fin w1, Fin w2] (Fin l) [[Fin a1, Fin a2]] = [[Fin x1, Fin x2]]"
proof -
  have y: "y \<noteq> 0" using assms by auto
  have d: "0 < 1 - exp (- (l * (y * y)))"
    using y assms(4) by (auto simp: zero_less_mult_iff)
  have n: "\<not> \<bar>y\<bar> * 1000000 < 1"
    using assms by (simp add: field_simps)
  show ?thesis
    using assms(2,3,5,6) d n
    by (simp add: computePosteriorLogZProbability_def Let_def emap_def emap2_def dot_def
        columns_def ncols_def fsum_def of_bool_fl_def signed_inf_def)
qed

lemma Estep_example_1_1_2:
  "\<exists>W ll E1 EXX EX2. Estep tanh [[Fin 1]] [[Fin 0, Fin 2]] [[Fin 1, Fin 3]] [Fin (1 / 4), Fin (3 / 4)] (Fin 1) =
      Inr (W, ll, E1, EXX, EX2)"
proof -
  from computeIntegrals_1_2 [of 1 3 1 tanh 0 2] tanh_range obtain a1 a2 b1 b2 c1 c2
    where ci: "computeIntegrals tanh [[Fin 0, Fin 2]] [[Fin 1, Fin 3]] (Fin 1) =
           Inr ([[Fin a1, Fin a2]], [[Fin b1, Fin b2]], [[Fin c1, Fin c2]])"
    by auto
  from scorer_1_1_2 [of 1 1 3 1 "1 / 4" "3 / 4" 0 2 a1 a2] obtain x1 x2
    where sc: "computePosteriorLogZProbability [[Fin 1]] [[Fin 0, Fin 2]] [[Fin 1, Fin 3]]
           [Fin (1 / 4), Fin (3 / 4)] (Fin 1) [[Fin a1, Fin a2]] = map (map Fin) [[x1, x2]]"
    by auto
  have chk: "checkNoNans [concat [[Fin a1, Fin a2]], concat [[Fin b1, Fin b2]], concat [[Fin c1, Fin c2]]] = Inr ()"
    by (simp add: checkNoNans_def)
  have ne: "\<forall>r\<in>set [[x1, x2]]. r \<noteq> []" by simp
  from Estep_from_parts [OF ci chk sc ne] show ?thesis by blast
qed

theorem Estep_row_stochastic_witness:
  "\<exists>W ll E1 EXX EX2.
     Estep tanh [[Fin 1]] [[Fin 0, Fin 2]] [[Fin 1, Fin 3]] [Fin (1 / 4), Fin (3 / 4)] (Fin 1) =
       Inr (W, ll, E1, EXX, EX2)
     \<and> length W = 1
     \<and> (\<forall>row\<in>set W. \<exists>ps. row = map Fin ps \<and> (\<forall>p\<in>set ps. 0 \<le> p) \<and> sum_list ps = 1)"
proof -
  from Estep_example_1_1_2 obtain W ll E1 EXX EX2
    where E: "Estep tanh [[Fin 1]] [[Fin 0, Fin 2]] [[Fin 1, Fin 3]] [Fin (1 / 4), Fin (3 / 4)] (Fin 1) =
       Inr (W, ll, E1, EXX, EX2)"
    by blast
  from Estep_row_stochastic [OF E] E show ?thesis
    by auto
qed

section \<open>Non-finite values in Estep\<close>








section \<open>The loop of fitModel\<close>




text \<open>The comparison of the last two entries of the trace, after the append.\<close>

lemma last_two:
  "(2 \<le> length (xs @ [x]) \<and> fless (last (xs @ [x])) (last (butlast (xs @ [x])))) =
   (xs \<noteq> [] \<and> fless x (last xs))"
  by (cases xs) auto

lemma fit_iter_Inr:
  assumes "fit_iter erf minimize Y max_iter thresh n st = Inr (st', stop)"
  shows "\<exists>W ll E1 EXX EX2 zhat.
           Estep erf Y (cluster_mus st) (cluster_sigmas st) (cluster_weights st) (decay_coef st) =
             Inr (W, ll, E1, EXX, EX2)
           \<and> checkNoNans [concat W, concat EXX, concat EX2,
                concat (fst (Mstep minimize Y W EXX EX2 (cluster_mus st) (cluster_sigmas st)
                  (cluster_weights st) (decay_coef st))),
                concat (fst (snd (Mstep minimize Y W EXX EX2 (cluster_mus st) (cluster_sigmas st)
                  (cluster_weights st) (decay_coef st)))),
                fst (snd (snd (Mstep minimize Y W EXX EX2 (cluster_mus st) (cluster_sigmas st)
                  (cluster_weights st) (decay_coef st)))),
                [snd (snd (snd (Mstep minimize Y W EXX EX2 (cluster_mus st) (cluster_sigmas st)
                  (cluster_weights st) (decay_coef st))))]] = Inr ()
           \<and> \<not> (lls st \<noteq> [] \<and> fless ll (last (lls st)))
           \<and> st' = \<lparr>cluster_mus = fst (Mstep minimize Y W EXX EX2 (cluster_mus st)
                        (cluster_sigmas st) (cluster_weights st) (decay_coef st)),
                    cluster_sigmas = fst (snd (Mstep minimize Y W EXX EX2 (cluster_mus st)
                        (cluster_sigmas st) (cluster_weights st) (decay_coef st))),
                    cluster_weights = fst (snd (snd (Mstep minimize Y W EXX EX2 (cluster_mus st)
                        (cluster_sigmas st) (cluster_weights st) (decay_coef st)))),
                    decay_coef = snd (snd (snd (Mstep minimize Y W EXX EX2 (cluster_mus st)
                        (cluster_sigmas st) (cluster_weights st) (decay_coef st)))),
                    lls = lls st @ [ll], clusterings = clusterings st @ [zhat],
                    estep_log = estep_log st @ [ll]\<rparr>"
  using assms unfolding fit_iter_def Let_def last_two
  by (auto split: sum.splits prod.splits if_splits)

lemma fit_loop_eq_fit_upto_aux:
  "nat (max_iter - n) = k \<Longrightarrow>
   fit_loop erf minimize Y max_iter thresh n st = fit_upto k erf minimize Y max_iter thresh n st"
proof (induction k arbitrary: n st)
  case 0
  then have "\<not> n < max_iter" by simp
  then show ?case by (simp add: fit_loop.simps)
next
  case (Suc k)
  then have lt: "n < max_iter" and k: "nat (max_iter - (n + 1)) = k" by simp_all
  show ?case
    by (subst fit_loop.simps) (simp add: lt Suc.IH [OF k] split: sum.splits)
qed

lemma fit_loop_eq_fit_upto:
  "fit_loop erf minimize Y max_iter thresh n st =
   fit_upto (nat (max_iter - n)) erf minimize Y max_iter thresh n st"
  by (rule fit_loop_eq_fit_upto_aux) simp

lemma fit_upto_invariant:
  assumes "fit_upto k erf minimize Y max_iter thresh n st = Inr stf"
    and "P st"
    and step: "\<And>n s s' stop. P s \<Longrightarrow> fit_iter erf minimize Y max_iter thresh n s = Inr (s', stop) \<Longrightarrow> P s'"
  shows "P stf"
  using assms(1,2)
proof (induction k arbitrary: n st)
  case 0
  then show ?case by simp
next
  case (Suc k)
  from Suc.prems(1) obtain s' stop
    where it: "fit_iter erf minimize Y max_iter thresh n st = Inr (s', stop)"
      and rest: "(if stop then Inr s' else fit_upto k erf minimize Y max_iter thresh (n + 1) s') = Inr stf"
    by (auto split: sum.splits)
  have Ps': "P s'" using step [OF Suc.prems(2) it] .
  show ?case
  proof (cases stop)
    case True
    with rest Ps' show ?thesis by simp
  next
    case False
    with rest have "fit_upto k erf minimize Y max_iter thresh (n + 1) s' = Inr stf" by simp
    from Suc.IH [OF this Ps'] show ?thesis .
  qed
qed

lemma fit_loop_invariant:
  assumes "fit_loop erf minimize Y max_iter thresh n st = Inr stf"
    and "P st"
    and step: "\<And>n s s' stop. P s \<Longrightarrow> fit_iter erf minimize Y max_iter thresh n s = Inr (s', stop) \<Longrightarrow> P s'"
  shows "P stf"
  using assms(1) unfolding fit_loop_eq_fit_upto
  by (rule fit_upto_invariant) (fact assms(2), erule (1) step)




lemma fit_iter_log:
  assumes "estep_log s = lls s"
    and "fit_iter erf minimize Y max_iter thresh n s = Inr (s', stop)"
  shows "estep_log s' = lls s'"
  using fit_iter_Inr [OF assms(2)] assms(1) by auto




lemma fitModel_run_Inr:
  assumes "fitModel_run erf minimize (mus0, sigmas0, weights0, decay0) Y max_iter thresh = Inr (zhat, stf)"
  shows "\<exists>st1 W ll E1 EXX EX2.
           fit_loop erf minimize Y max_iter thresh 0
             \<lparr>cluster_mus = mus0, cluster_sigmas = sigmas0, cluster_weights = weights0,
              decay_coef = decay0, lls = [], clusterings = [], estep_log = []\<rparr> = Inr st1
           \<and> Estep erf Y (cluster_mus st1) (cluster_sigmas st1) (cluster_weights st1) (decay_coef st1) =
               Inr (W, ll, E1, EXX, EX2)
           \<and> stf = st1\<lparr>estep_log := estep_log st1 @ [ll]\<rparr>"
  using assms by (auto simp: fitModel_run_def split: sum.splits)

text \<open>
  Claim C4, as amended. In a call of \<open>fitModel\<close> that returns, \<open>lls\<close> has exactly one entry
  for each E-step completed inside the loop, in order of completion. The final E-step
  after the loop completes too, and its likelihood is not appended: the likelihoods of all
  the completed E-steps are \<open>lls\<close> followed by one more entry.
\<close>

theorem trace_omits_final_Estep:
  assumes "fitModel_run erf minimize init Y max_iter thresh = Inr (zhat, stf)"
  shows "(\<exists>ll. estep_log stf = lls stf @ [ll])
         \<and> fitModel erf minimize init Y max_iter thresh =
             Inr (zhat, cluster_mus stf, cluster_sigmas stf, cluster_weights stf, decay_coef stf,
                  lls stf)"
proof -
  obtain mus0 sigmas0 weights0 decay0 where init: "init = (mus0, sigmas0, weights0, decay0)"
    by (cases init) auto
  from fitModel_run_Inr [OF assms [unfolded init]] obtain st1 ll
    where loop: "fit_loop erf minimize Y max_iter thresh 0
             \<lparr>cluster_mus = mus0, cluster_sigmas = sigmas0, cluster_weights = weights0,
              decay_coef = decay0, lls = [], clusterings = [], estep_log = []\<rparr> = Inr st1"
      and stf: "stf = st1\<lparr>estep_log := estep_log st1 @ [ll]\<rparr>"
    by blast
  have "estep_log st1 = lls st1"
    by (rule fit_loop_invariant [OF loop, where P = "\<lambda>s. estep_log s = lls s"])
       (simp, erule (1) fit_iter_log)
  then have "estep_log stf = lls stf @ [ll]"
    by (simp add: stf)
  then show ?thesis
    using assms by (auto simp: fitModel_def)
qed


lemma fit_iter_decay:
  assumes "fit_iter erf minimize Y max_iter thresh n st = Inr (st', stop)"
  shows "\<exists>f. decay_coef st' = minimize f (decay_coef st) (Fin (1 / 10 ^ 4))"
proof -
  from fit_iter_Inr [OF assms] obtain W EXX EX2
    where "decay_coef st' = snd (snd (snd (Mstep minimize Y W EXX EX2 (cluster_mus st)
                        (cluster_sigmas st) (cluster_weights st) (decay_coef st))))"
    by auto
  then show ?thesis
    by (auto simp: Mstep_def Let_def)
qed

lemma fle_fless_trans:
  assumes "fle (Fin a) x" "0 < a"
  shows "fless (Fin 0) x"
  using assms by (cases x) auto

lemma fit_upto_decay:
  assumes "fit_upto k erf minimize Y max_iter thresh n st = Inr stf"
    and "\<forall>f x0. fle (Fin (1 / 10 ^ 4)) (minimize f x0 (Fin (1 / 10 ^ 4)))"
    and "0 < k \<or> fle (Fin (1 / 10 ^ 4)) (decay_coef st)"
  shows "fle (Fin (1 / 10 ^ 4)) (decay_coef stf)"
  using assms(1,3)
proof (induction k arbitrary: n st)
  case 0
  then show ?case by simp
next
  case (Suc k)
  from Suc.prems(1) obtain s' stop
    where it: "fit_iter erf minimize Y max_iter thresh n st = Inr (s', stop)"
      and rest: "(if stop then Inr s' else fit_upto k erf minimize Y max_iter thresh (n + 1) s') = Inr stf"
    by (auto split: sum.splits)
  from fit_iter_decay [OF it] assms(2) have d: "fle (Fin (1 / 10 ^ 4)) (decay_coef s')" by auto
  show ?case
  proof (cases stop)
    case True
    with rest d show ?thesis by simp
  next
    case False
    with rest have "fit_upto k erf minimize Y max_iter thresh (n + 1) s' = Inr stf" by simp
    from Suc.IH [OF this] d show ?thesis by simp
  qed
qed

text \<open>
  Claim C10. With a minimizer that keeps to the lower bound \<open>1e-4\<close> it is given, the decay
  coefficient that \<open>Mstep\<close> returns is at least \<open>1e-4\<close>; so are the coefficient after every
  iteration of the loop, which is therefore greater than 0 as the next call of
  \<open>computeIntegrals\<close> asserts, and the coefficient that \<open>fitModel\<close> returns when
  \<open>max_iter\<close> is positive.
\<close>

theorem decay_coef_lower_bound:
  assumes "\<forall>f x0. fle (Fin (1 / 10 ^ 4)) (minimize f x0 (Fin (1 / 10 ^ 4)))"
  shows "(Mstep minimize Y W EXX EX2 mus sigmas weights decay = (mus', sigmas', weights', decay')
          \<longrightarrow> fle (Fin (1 / 10 ^ 4)) decay')
         \<and> (fit_iter erf minimize Y max_iter thresh n st = Inr (st', stop)
            \<longrightarrow> fle (Fin (1 / 10 ^ 4)) (decay_coef st') \<and> fless (Fin 0) (decay_coef st'))
         \<and> (0 < max_iter \<and>
            fitModel erf minimize init Y max_iter thresh = Inr (zhat, musf, sigmasf, weightsf, decayf, trace)
            \<longrightarrow> fle (Fin (1 / 10 ^ 4)) decayf \<and> fless (Fin 0) decayf)"
proof (intro conjI impI)
  assume "Mstep minimize Y W EXX EX2 mus sigmas weights decay = (mus', sigmas', weights', decay')"
  then have "\<exists>f. decay' = minimize f decay (Fin (1 / 10 ^ 4))"
    by (auto simp: Mstep_def Let_def)
  with assms show "fle (Fin (1 / 10 ^ 4)) decay'" by auto
next
  assume "fit_iter erf minimize Y max_iter thresh n st = Inr (st', stop)"
  from fit_iter_decay [OF this] assms show d: "fle (Fin (1 / 10 ^ 4)) (decay_coef st')" by auto
  then show "fless (Fin 0) (decay_coef st')" by (rule fle_fless_trans) simp
next
  assume a: "0 < max_iter \<and>
            fitModel erf minimize init Y max_iter thresh = Inr (zhat, musf, sigmasf, weightsf, decayf, trace)"
  then obtain stf where run: "fitModel_run erf minimize init Y max_iter thresh = Inr (zhat, stf)"
    and tr: "decayf = decay_coef stf"
    by (auto simp: fitModel_def split: sum.splits)
  obtain m0 s0 w0 d0 where init: "init = (m0, s0, w0, d0)"
    by (cases init) auto
  from fitModel_run_Inr [OF run [unfolded init]] obtain st1 ll
    where loop: "fit_loop erf minimize Y max_iter thresh 0
             \<lparr>cluster_mus = m0, cluster_sigmas = s0, cluster_weights = w0,
              decay_coef = d0, lls = [], clusterings = [], estep_log = []\<rparr> = Inr st1"
      and stf: "stf = st1\<lparr>estep_log := estep_log st1 @ [ll]\<rparr>"
    by blast
  from loop have "fit_upto (nat max_iter) erf minimize Y max_iter thresh 0
             \<lparr>cluster_mus = m0, cluster_sigmas = s0, cluster_weights = w0,
              decay_coef = d0, lls = [], clusterings = [], estep_log = []\<rparr> = Inr st1"
    using fit_loop_eq_fit_upto [of erf minimize Y max_iter thresh 0] by simp
  from fit_upto_decay [OF this assms] a have "fle (Fin (1 / 10 ^ 4)) (decay_coef st1)"
    by simp
  then show d: "fle (Fin (1 / 10 ^ 4)) decayf" by (simp add: tr stf)
  then show "fless (Fin 0) decayf" by (rule fle_fless_trans) simp
qed

section \<open>Two runs of fitModel\<close>

lemma minimize_clip_bound: "\<forall>f x0. fle (Fin (1 / 10 ^ 4)) (minimize_clip f x0 (Fin (1 / 10 ^ 4)))"
  by (simp add: minimize_clip_def)

lemma computeIntegrals_1_1:
  assumes "0 < s" "0 < l" "\<forall>x. - 1 < erf x \<and> erf x \<le> 1"
  shows "\<exists>e1 ex ex2. computeIntegrals erf [[Fin m]] [[Fin s]] (Fin l) =
           Inr ([[Fin e1]], [[Fin ex]], [[Fin ex2]])"
proof -
  from integrals_entry_valid [OF assms, of m] obtain e1 ex ex2
    where 1: "integrals_entry erf (Fin l) (Fin m) (Fin s) = (Fin e1, Fin ex, Fin ex2)" by blast
  have "computeIntegrals erf [[Fin m]] [[Fin s]] (Fin l) = Inr ([[Fin e1]], [[Fin ex]], [[Fin ex2]])"
    using assms(1,2) by (simp add: computeIntegrals_def emap2_def 1)
  then show ?thesis by blast
qed

lemma scorer_2_1_1:
  assumes "1 / 10 ^ 6 \<le> \<bar>y1\<bar>" "1 / 10 ^ 6 \<le> \<bar>y2\<bar>" "0 < s" "0 < l"
  shows "computePosteriorLogZProbability [[Fin y1], [Fin y2]] [[Fin m]] [[Fin s]] [Fin 1] (Fin l)
           [[Fin e1]] =
         [[Fin (ln (1 / sqrt (2 * pi * (s * s))) + ln (1 - exp (- (l * (y1 * y1))))
                - (y1 - m) * (y1 - m) / (2 * (s * s)))],
          [Fin (ln (1 / sqrt (2 * pi * (s * s))) + ln (1 - exp (- (l * (y2 * y2))))
                - (y2 - m) * (y2 - m) / (2 * (s * s)))]]"
proof -
  have y: "y1 \<noteq> 0" "y2 \<noteq> 0" using assms by auto
  have d: "0 < 1 - exp (- (l * (y1 * y1)))" "0 < 1 - exp (- (l * (y2 * y2)))"
    using y assms(4) by (auto simp: zero_less_mult_iff)
  have n: "\<not> \<bar>y1\<bar> * 1000000 < 1" "\<not> \<bar>y2\<bar> * 1000000 < 1"
    using assms by (simp_all add: field_simps)
  show ?thesis
    using assms(3) d n
    by (simp add: computePosteriorLogZProbability_def Let_def emap_def emap2_def dot_def
        columns_def ncols_def fsum_def of_bool_fl_def signed_inf_def)
qed

lemma Estep_2_1_1:
  assumes "1 / 10 ^ 6 \<le> \<bar>y1\<bar>" "1 / 10 ^ 6 \<le> \<bar>y2\<bar>" "0 < s" "0 < l"
    and "\<forall>x. - 1 < erf x \<and> erf x \<le> 1"
  shows "\<exists>e1 ex ex2. Estep erf [[Fin y1], [Fin y2]] [[Fin m]] [[Fin s]] [Fin 1] (Fin l) =
           Inr ([[Fin 1], [Fin 1]],
                Fin (ln (1 / sqrt (2 * pi * (s * s))) + ln (1 - exp (- (l * (y1 * y1))))
                       - (y1 - m) * (y1 - m) / (2 * (s * s))
                     + (ln (1 / sqrt (2 * pi * (s * s))) + ln (1 - exp (- (l * (y2 * y2))))
                       - (y2 - m) * (y2 - m) / (2 * (s * s)))),
                [[Fin e1]], [[Fin ex]], [[Fin ex2]])"
proof -
  let ?x1 = "ln (1 / sqrt (2 * pi * (s * s))) + ln (1 - exp (- (l * (y1 * y1))))
                - (y1 - m) * (y1 - m) / (2 * (s * s))"
  let ?x2 = "ln (1 / sqrt (2 * pi * (s * s))) + ln (1 - exp (- (l * (y2 * y2))))
                - (y2 - m) * (y2 - m) / (2 * (s * s))"
  from computeIntegrals_1_1 [OF assms(3,4,5), of m] obtain e1 ex ex2
    where ci: "computeIntegrals erf [[Fin m]] [[Fin s]] (Fin l) =
           Inr ([[Fin e1]], [[Fin ex]], [[Fin ex2]])"
    by blast
  have sc: "computePosteriorLogZProbability [[Fin y1], [Fin y2]] [[Fin m]] [[Fin s]] [Fin 1] (Fin l)
           [[Fin e1]] = map (map Fin) [[?x1], [?x2]]"
    using scorer_2_1_1 [OF assms(1-4), of m e1] by simp
  have chk: "checkNoNans [concat [[Fin e1]], concat [[Fin ex]], concat [[Fin ex2]]] = Inr ()"
    by (simp add: checkNoNans_def)
  have ne: "\<forall>r\<in>set [[?x1], [?x2]]. r \<noteq> []" by simp
  from Estep_from_parts [OF ci chk sc ne]
  have "Estep erf [[Fin y1], [Fin y2]] [[Fin m]] [[Fin s]] [Fin 1] (Fin l) =
           Inr ([[Fin 1], [Fin 1]], Fin (?x1 + ?x2), [[Fin e1]], [[Fin ex]], [[Fin ex2]])"
    by simp
  then show ?thesis by blast
qed

lemma Mstep_1_3:
  "Mstep minimize [[Fin 1], [Fin 3]] [[Fin 1], [Fin 1]] [[Fin ex]] [[Fin ex2]] mus sigmas weights decay =
     ([[Fin 2]], [[Fin 1]], [Fin 1],
      minimize (\<lambda>x. decayCoefObjectiveFn x (Fin 0) [[Fin 1], [Fin 3]] [[False], [False]]
                  [[Fin 1], [Fin 1]]) decay (Fin (1 / 10 ^ 4)))"
  by (simp add: Mstep_def Let_def emap_def emap2_def dot_def columns_def ncols_def fsum_def
      of_bool_fl_def)



text \<open>The first iteration on the samples 1 and 3, from mean 0, deviation 1 and lambda 1.\<close>

lemma fit_iter_1_3:
  "\<exists>ll. fit_iter tanh minimize_clip [[Fin 1], [Fin 3]] max_iter (Fin (1 / 100)) 0
      \<lparr>cluster_mus = [[Fin 0]], cluster_sigmas = [[Fin 1]], cluster_weights = [Fin 1],
       decay_coef = Fin 1, lls = [], clusterings = [], estep_log = []\<rparr> =
     (if max_iter \<le> 0
      then Inr (\<lparr>cluster_mus = [[Fin 2]], cluster_sigmas = [[Fin 1]], cluster_weights = [Fin 1],
       decay_coef = Fin 1, lls = [Fin ll], clusterings = [[0, 0]], estep_log = [Fin ll]\<rparr>, True)
      else Inr (\<lparr>cluster_mus = [[Fin 2]], cluster_sigmas = [[Fin 1]], cluster_weights = [Fin 1],
       decay_coef = Fin 1, lls = [Fin ll], clusterings = [[0, 0]], estep_log = [Fin ll]\<rparr>, False))"
proof -
  from Estep_2_1_1 [of 1 3 1 1 tanh 0] tanh_range obtain ll e1 ex ex2
    where E: "Estep tanh [[Fin 1], [Fin 3]] [[Fin 0]] [[Fin 1]] [Fin 1] (Fin 1) =
                Inr ([[Fin 1], [Fin 1]], Fin ll, [[Fin e1]], [[Fin ex]], [[Fin ex2]])"
    by auto
  have "fit_iter tanh minimize_clip [[Fin 1], [Fin 3]] max_iter (Fin (1 / 100)) 0
      \<lparr>cluster_mus = [[Fin 0]], cluster_sigmas = [[Fin 1]], cluster_weights = [Fin 1],
       decay_coef = Fin 1, lls = [], clusterings = [], estep_log = []\<rparr> =
     (if max_iter \<le> 0
      then Inr (\<lparr>cluster_mus = [[Fin 2]], cluster_sigmas = [[Fin 1]], cluster_weights = [Fin 1],
       decay_coef = Fin 1, lls = [Fin ll], clusterings = [[0, 0]], estep_log = [Fin ll]\<rparr>, True)
      else Inr (\<lparr>cluster_mus = [[Fin 2]], cluster_sigmas = [[Fin 1]], cluster_weights = [Fin 1],
       decay_coef = Fin 1, lls = [Fin ll], clusterings = [[0, 0]], estep_log = [Fin ll]\<rparr>, False))"
    by (simp add: fit_iter_def E Mstep_1_3 Let_def minimize_clip_def checkNoNans_def argmax_def)
  then show ?thesis by blast
qed

lemma fit_loop_1_3:
  "\<exists>ll. fit_loop tanh minimize_clip [[Fin 1], [Fin 3]] 1 (Fin (1 / 100)) 0
      \<lparr>cluster_mus = [[Fin 0]], cluster_sigmas = [[Fin 1]], cluster_weights = [Fin 1],
       decay_coef = Fin 1, lls = [], clusterings = [], estep_log = []\<rparr> =
     Inr \<lparr>cluster_mus = [[Fin 2]], cluster_sigmas = [[Fin 1]], cluster_weights = [Fin 1],
       decay_coef = Fin 1, lls = [Fin ll], clusterings = [[0, 0]], estep_log = [Fin ll]\<rparr>"
proof -
  from fit_iter_1_3 [of 1] obtain ll
    where it: "fit_iter tanh minimize_clip [[Fin 1], [Fin 3]] 1 (Fin (1 / 100)) 0
      \<lparr>cluster_mus = [[Fin 0]], cluster_sigmas = [[Fin 1]], cluster_weights = [Fin 1],
       decay_coef = Fin 1, lls = [], clusterings = [], estep_log = []\<rparr> =
      Inr (\<lparr>cluster_mus = [[Fin 2]], cluster_sigmas = [[Fin 1]], cluster_weights = [Fin 1],
       decay_coef = Fin 1, lls = [Fin ll], clusterings = [[0, 0]], estep_log = [Fin ll]\<rparr>, False)"
    by auto
  have "fit_loop tanh minimize_clip [[Fin 1], [Fin 3]] 1 (Fin (1 / 100)) 0
      \<lparr>cluster_mus = [[Fin 0]], cluster_sigmas = [[Fin 1]], cluster_weights = [Fin 1],
       decay_coef = Fin 1, lls = [], clusterings = [], estep_log = []\<rparr> =
     fit_loop tanh minimize_clip [[Fin 1], [Fin 3]] 1 (Fin (1 / 100)) 1
      \<lparr>cluster_mus = [[Fin 2]], cluster_sigmas = [[Fin 1]], cluster_weights = [Fin 1],
       decay_coef = Fin 1, lls = [Fin ll], clusterings = [[0, 0]], estep_log = [Fin ll]\<rparr>"
    by (subst fit_loop.simps) (simp add: it)
  also have "\<dots> = Inr \<lparr>cluster_mus = [[Fin 2]], cluster_sigmas = [[Fin 1]], cluster_weights = [Fin 1],
       decay_coef = Fin 1, lls = [Fin ll], clusterings = [[0, 0]], estep_log = [Fin ll]\<rparr>"
    by (subst fit_loop.simps) simp
  finally show ?thesis by blast
qed

lemma fitModel_run_1_3:
  "\<exists>ll ll2. fitModel_run tanh minimize_clip ([[Fin 0]], [[Fin 1]], [Fin 1], Fin 1)
       [[Fin 1], [Fin 3]] 1 (Fin (1 / 100)) =
     Inr ([0, 0], \<lparr>cluster_mus = [[Fin 2]], cluster_sigmas = [[Fin 1]], cluster_weights = [Fin 1],
       decay_coef = Fin 1, lls = [Fin ll], clusterings = [[0, 0]],
       estep_log = [Fin ll, Fin ll2]\<rparr>)"
proof -
  from fit_loop_1_3 obtain ll
    where lo: "fit_loop tanh minimize_clip [[Fin 1], [Fin 3]] 1 (Fin (1 / 100)) 0
      \<lparr>cluster_mus = [[Fin 0]], cluster_sigmas = [[Fin 1]], cluster_weights = [Fin 1],
       decay_coef = Fin 1, lls = [], clusterings = [], estep_log = []\<rparr> =
     Inr \<lparr>cluster_mus = [[Fin 2]], cluster_sigmas = [[Fin 1]], cluster_weights = [Fin 1],
       decay_coef = Fin 1, lls = [Fin ll], clusterings = [[0, 0]], estep_log = [Fin ll]\<rparr>"
    ..
  from Estep_2_1_1 [of 1 3 1 1 tanh 2] tanh_range obtain ll2 e1 ex ex2
    where E: "Estep tanh [[Fin 1], [Fin 3]] [[Fin 2]] [[Fin 1]] [Fin 1] (Fin 1) =
                Inr ([[Fin 1], [Fin 1]], Fin ll2, [[Fin e1]], [[Fin ex]], [[Fin ex2]])"
    by auto
  have "fitModel_run tanh minimize_clip ([[Fin 0]], [[Fin 1]], [Fin 1], Fin 1)
       [[Fin 1], [Fin 3]] 1 (Fin (1 / 100)) =
     Inr ([0, 0], \<lparr>cluster_mus = [[Fin 2]], cluster_sigmas = [[Fin 1]], cluster_weights = [Fin 1],
       decay_coef = Fin 1, lls = [Fin ll], clusterings = [[0, 0]],
       estep_log = [Fin ll, Fin ll2]\<rparr>)"
    by (simp add: fitModel_run_def lo E checkNoNans_def argmax_def)
  then show ?thesis by blast
qed



text \<open>
  Against claim C4 as stated: the samples 1 and 3, one iteration allowed. \<open>fitModel\<close>
  returns after two completed E-steps, and \<open>lls\<close> has one entry.
\<close>

theorem final_Estep_not_in_trace:
  "(case fitModel_run tanh minimize_clip ([[Fin 0]], [[Fin 1]], [Fin 1], Fin 1)
          [[Fin 1], [Fin 3]] 1 (Fin (1 / 100)) of
      Inl e \<Rightarrow> False
    | Inr (zhat, st) \<Rightarrow> length (lls st) = 1 \<and> length (estep_log st) = 2)"
proof -
  from fitModel_run_1_3 obtain ll ll2
    where "fitModel_run tanh minimize_clip ([[Fin 0]], [[Fin 1]], [Fin 1], Fin 1)
       [[Fin 1], [Fin 3]] 1 (Fin (1 / 100)) =
     Inr ([0, 0], \<lparr>cluster_mus = [[Fin 2]], cluster_sigmas = [[Fin 1]], cluster_weights = [Fin 1],
       decay_coef = Fin 1, lls = [Fin ll], clusterings = [[0, 0]],
       estep_log = [Fin ll, Fin ll2]\<rparr>)"
    by blast
  then show ?thesis by simp
qed

lemma fitModel_1_3:
  "\<exists>ll. fitModel tanh minimize_clip ([[Fin 0]], [[Fin 1]], [Fin 1], Fin 1)
       [[Fin 1], [Fin 3]] 1 (Fin (1 / 100)) =
     Inr ([0, 0], [[Fin 2]], [[Fin 1]], [Fin 1], Fin 1, [Fin ll])"
proof -
  from fitModel_run_1_3 obtain ll ll2
    where "fitModel_run tanh minimize_clip ([[Fin 0]], [[Fin 1]], [Fin 1], Fin 1)
       [[Fin 1], [Fin 3]] 1 (Fin (1 / 100)) =
     Inr ([0, 0], \<lparr>cluster_mus = [[Fin 2]], cluster_sigmas = [[Fin 1]], cluster_weights = [Fin 1],
       decay_coef = Fin 1, lls = [Fin ll], clusterings = [[0, 0]],
       estep_log = [Fin ll, Fin ll2]\<rparr>)"
    by blast
  then have "fitModel tanh minimize_clip ([[Fin 0]], [[Fin 1]], [Fin 1], Fin 1)
       [[Fin 1], [Fin 3]] 1 (Fin (1 / 100)) =
     Inr ([0, 0], [[Fin 2]], [[Fin 1]], [Fin 1], Fin 1, [Fin ll])"
    by (simp add: fitModel_def)
  then show ?thesis ..
qed




theorem trace_omits_final_Estep_witness:
  "\<exists>zhat stf ll.
     fitModel_run tanh minimize_clip ([[Fin 0]], [[Fin 1]], [Fin 1], Fin 1)
       [[Fin 1], [Fin 3]] 1 (Fin (1 / 100)) = Inr (zhat, stf)
     \<and> estep_log stf = lls stf @ [ll]
     \<and> fitModel tanh minimize_clip ([[Fin 0]], [[Fin 1]], [Fin 1], Fin 1)
          [[Fin 1], [Fin 3]] 1 (Fin (1 / 100)) =
        Inr (zhat, cluster_mus stf, cluster_sigmas stf, cluster_weights stf, decay_coef stf,
             lls stf)"
proof -
  from fitModel_run_1_3 obtain zhat stf
    where R: "fitModel_run tanh minimize_clip ([[Fin 0]], [[Fin 1]], [Fin 1], Fin 1)
       [[Fin 1], [Fin 3]] 1 (Fin (1 / 100)) = Inr (zhat, stf)"
    by blast
  from trace_omits_final_Estep [OF R] R show ?thesis by blast
qed


theorem decay_coef_lower_bound_witness:
  "(\<forall>f x0. fle (Fin (1 / 10 ^ 4)) (minimize_clip f x0 (Fin (1 / 10 ^ 4))))
   \<and> (\<exists>mus' sigmas' weights' decay'.
        Mstep minimize_clip [[Fin 1], [Fin 3]] [[Fin 1], [Fin 1]] [[Fin 0]] [[Fin 0]]
          [[Fin 0]] [[Fin 1]] [Fin 1] (Fin 1) = (mus', sigmas', weights', decay')
        \<and> fle (Fin (1 / 10 ^ 4)) decay')
   \<and> (\<exists>st' stop.
        fit_iter tanh minimize_clip [[Fin 1], [Fin 3]] 1 (Fin (1 / 100)) 0
          \<lparr>cluster_mus = [[Fin 0]], cluster_sigmas = [[Fin 1]], cluster_weights = [Fin 1],
           decay_coef = Fin 1, lls = [], clusterings = [], estep_log = []\<rparr> = Inr (st', stop)
        \<and> fle (Fin (1 / 10 ^ 4)) (decay_coef st') \<and> fless (Fin 0) (decay_coef st'))
   \<and> (\<exists>zhat mus sigmas weights decay trace.
        fitModel tanh minimize_clip ([[Fin 0]], [[Fin 1]], [Fin 1], Fin 1)
          [[Fin 1], [Fin 3]] 1 (Fin (1 / 100)) = Inr (zhat, mus, sigmas, weights, decay, trace)
        \<and> fle (Fin (1 / 10 ^ 4)) decay \<and> fless (Fin 0) decay)"
proof -
  let ?st0 = "\<lparr>cluster_mus = [[Fin 0]], cluster_sigmas = [[Fin 1]], cluster_weights = [Fin 1],
       decay_coef = Fin 1, lls = [], clusterings = [], estep_log = []\<rparr>"
  let ?Y = "[[Fin 1], [Fin 3]]"
  let ?init = "([[Fin 0]], [[Fin 1]], [Fin 1], Fin 1)"
  obtain mus' sigmas' weights' decay'
    where M: "Mstep minimize_clip ?Y [[Fin 1], [Fin 1]] [[Fin 0]] [[Fin 0]]
          [[Fin 0]] [[Fin 1]] [Fin 1] (Fin 1) = (mus', sigmas', weights', decay')"
    by (metis prod_cases4)
  from fitModel_1_3 obtain ll
    where F: "fitModel tanh minimize_clip ?init ?Y 1 (Fin (1 / 100)) =
       Inr ([0, 0], [[Fin 2]], [[Fin 1]], [Fin 1], Fin 1, [Fin ll])" ..
  from fit_iter_1_3 [of 1] obtain s'
    where it: "fit_iter tanh minimize_clip ?Y 1 (Fin (1 / 100)) 0 ?st0 = Inr (s', False)"
    by auto
  note T = decay_coef_lower_bound [where minimize = minimize_clip and Y = ?Y and W = "[[Fin 1], [Fin 1]]"
      and EXX = "[[Fin 0]]" and ?EX2.0 = "[[Fin 0]]" and mus = "[[Fin 0]]" and sigmas = "[[Fin 1]]"
      and weights = "[Fin 1]" and decay = "Fin 1" and mus' = mus' and sigmas' = sigmas'
      and weights' = weights' and decay' = decay' and erf = tanh and max_iter = 1
      and thresh = "Fin (1 / 100)" and n = 0 and st = ?st0 and st' = s' and stop = False
      and init = ?init and zhat = "[0, 0]" and musf = "[[Fin 2]]" and sigmasf = "[[Fin 1]]"
      and weightsf = "[Fin 1]" and decayf = "Fin 1" and trace = "[Fin ll]",
      OF minimize_clip_bound]
  have 1: "fle (Fin (1 / 10 ^ 4)) decay'"
    using T M by blast
  have 2: "fle (Fin (1 / 10 ^ 4)) (decay_coef s') \<and> fless (Fin 0) (decay_coef s')"
    using T it by blast
  have 3: "fle (Fin (1 / 10 ^ 4)) (Fin 1) \<and> fless (Fin 0) (Fin 1)"
    using T F by simp
  from 1 2 3 M F it minimize_clip_bound show ?thesis
    by blast
qed

section \<open>The entries of computePosteriorLogZProbability\<close>

lemma max_float_pos: "0 < max_float"
  by (simp add: max_float_def)

text \<open>
  Against claim C2 as stated: one sample with one censored dimension whose mass \<open>E1\<close> is
  0 (valid parameters otherwise). The term \<open>log E1\<close> is \<open>-inf\<close>; \<open>np.nan_to_num\<close> turns it
  into the most negative float, not into 0, and the entry of the source differs from the
  entry the claim describes.
\<close>

theorem nonfinite_term_not_zero:
  "computePosteriorLogZProbability [[Fin 0]] [[Fin 0]] [[Fin 1]] [Fin 1] (Fin 1) [[Fin 0]] =
     [[Fin (- max_float)]]
   \<and> spec_posterior_entry [[Fin 0]] [[Fin 0]] [[Fin 1]] [Fin 1] (Fin 1) [[Fin 0]] 0 0 = Fin 0
   \<and> Fin (- max_float) \<noteq> Fin 0"
proof (intro conjI)
  show "computePosteriorLogZProbability [[Fin 0]] [[Fin 0]] [[Fin 1]] [Fin 1] (Fin 1) [[Fin 0]] =
     [[Fin (- max_float)]]"
    by (simp add: computePosteriorLogZProbability_def Let_def emap_def emap2_def dot_def
        columns_def ncols_def fsum_def of_bool_fl_def signed_inf_def)
  show "spec_posterior_entry [[Fin 0]] [[Fin 0]] [[Fin 1]] [Fin 1] (Fin 1) [[Fin 0]] 0 0 = Fin 0"
    by (simp add: spec_posterior_entry_def finite_or_zero_def fsum_def)
  show "Fin (- max_float) \<noteq> Fin 0"
    using max_float_pos by simp
qed

lemma dot_nth:
  assumes "i < length A" "k < ncols B"
  shows "dot A B ! i ! k = fsum (map2 fmul (A ! i) (map (\<lambda>row. row ! k) B))"
  using assms by (simp add: dot_def columns_def)

lemma length_dot [simp]: "length (dot A B) = length A"
  by (simp add: dot_def)

lemma length_dot_row [simp]: "i < length A \<Longrightarrow> length (dot A B ! i) = ncols B"
  by (simp add: dot_def columns_def)

lemma columns_nth: "k < ncols M \<Longrightarrow> columns M ! k = map (\<lambda>row. row ! k) M"
  by (simp add: columns_def)

lemma length_columns [simp]: "length (columns M) = ncols M"
  by (simp add: columns_def)

lemma emap_nth:
  assumes "i < length A" "k < length (A ! i)"
  shows "emap f A ! i ! k = f (A ! i ! k)"
  using assms by (simp add: emap_def)

lemma emap2_nth:
  assumes "i < length A" "i < length B" "k < length (A ! i)" "k < length (B ! i)"
  shows "emap2 f A B ! i ! k = f (A ! i ! k) (B ! i ! k)"
  using assms by (simp add: emap2_def)

lemma length_emap [simp]: "length (emap f A) = length A"
  by (simp add: emap_def)

lemma length_emap_row [simp]: "i < length A \<Longrightarrow> length (emap f A ! i) = length (A ! i)"
  by (simp add: emap_def)

lemma length_emap2 [simp]: "length (emap2 f A B) = min (length A) (length B)"
  by (simp add: emap2_def)

lemma length_emap2_row [simp]:
  "i < length A \<Longrightarrow> i < length B \<Longrightarrow>
   length (emap2 f A B ! i) = min (length (A ! i)) (length (B ! i))"
  by (simp add: emap2_def)

lemma fsum_index_Fin:
  assumes "\<And>d. d < n \<Longrightarrow> xs ! d = Fin (g d)" "length xs = n"
  shows "fsum xs = Fin (\<Sum>d\<leftarrow>[0..<n]. g d)"
proof -
  have "xs = map (\<lambda>d. Fin (g d)) [0..<n]"
    using assms by (auto intro!: nth_equalityI)
  then show ?thesis by (simp add: fsum_Fin_map)
qed

lemma ncols_rows:
  assumes "M \<noteq> []" "\<forall>row\<in>set M. length row = K"
  shows "ncols M = K"
  using assms by (cases M) (auto simp: ncols_def)

lemma ncols_emap:
  assumes "M \<noteq> []" "\<forall>row\<in>set M. length row = K"
  shows "ncols (emap f M) = K"
  using assms by (cases M) (auto simp: ncols_def emap_def)

lemma posterior_entry_sum:
  assumes Y: "\<forall>row\<in>set Y. length row = D"
    and M: "length mus = D" "\<forall>row\<in>set mus. length row = K"
    and S: "length sigmas = D" "\<forall>row\<in>set sigmas. length row = K"
    and E: "length E1 = D" "\<forall>row\<in>set E1. length row = K"
    and w: "length weights = K"
    and D: "0 < D" and i: "i < length Y" and k: "k < K"
  shows "computePosteriorLogZProbability Y mus sigmas weights lam E1 ! i ! k =
         fadd
           (fadd
              (fadd
                 (fadd (flog (weights ! k))
                    (nan_to_num (fsum (map (\<lambda>d.
                        fmul (of_bool_fl (fless (fabs (Y ! i ! d)) (Fin (1 / 10 ^ 6))))
                          (flog (E1 ! d ! k))) [0..<D]))))
                 (fsum (map (\<lambda>d.
                    fmul (of_bool_fl (\<not> fless (fabs (Y ! i ! d)) (Fin (1 / 10 ^ 6))))
                      (flog (fdiv (Fin 1)
                         (fsqrt (fmul (fmul (Fin 2) (Fin pi)) (fsq (sigmas ! d ! k))))))) [0..<D])))
              (fsum (map (\<lambda>d.
                 nan_to_num
                   (fmul (of_bool_fl (\<not> fless (fabs (Y ! i ! d)) (Fin (1 / 10 ^ 6))))
                      (flog (fsub (Fin 1) (fexp (fmul (fneg lam) (fsq (Y ! i ! d)))))))) [0..<D])))
           (fneg (fsum (map (\<lambda>d.
              fmul (of_bool_fl (\<not> fless (fabs (Y ! i ! d)) (Fin (1 / 10 ^ 6))))
                (fdiv (fsq (fsub (Y ! i ! d) (mus ! d ! k)))
                   (fmul (Fin 2) (fsq (sigmas ! d ! k))))) [0..<D])))"
proof -
  define z where "z d = fless (fabs (Y ! i ! d)) (Fin (1 / 10 ^ 6))" for d
  let ?Yz = "emap (\<lambda>y. fless (fabs y) (Fin (1 / 10 ^ 6))) Y"
  let ?nz = "emap (\<lambda>z. of_bool_fl (\<not> z)) ?Yz"
  let ?gs = "\<lambda>s. flog (fdiv (Fin 1) (fsqrt (fmul (fmul (Fin 2) (Fin pi)) (fsq s))))"
  let ?gy = "\<lambda>y. flog (fsub (Fin 1) (fexp (fmul (fneg lam) (fsq y))))"
  have ly: "length (Y ! i) = D" using Y i by simp
  have ne: "mus \<noteq> []" "sigmas \<noteq> []" "E1 \<noteq> []" using M S E D by auto
  have nc: "ncols mus = K" "ncols sigmas = K"
    using ne M S by (simp_all add: ncols_rows)
  have ncE: "ncols (emap flog E1) = K"
    using ne(3) E(2) by (rule ncols_emap)
  have ncS: "ncols (emap ?gs sigmas) = K"
    using ne(2) S(2) by (rule ncols_emap)
  have rows: "\<And>d. d < D \<Longrightarrow> length (mus ! d) = K \<and> length (sigmas ! d) = K \<and> length (E1 ! d) = K"
    using M S E by simp
  have Yzi: "\<And>d. d < D \<Longrightarrow> ?Yz ! i ! d = z d"
    using i ly by (simp add: emap_def z_def)
  have nzi: "\<And>d. d < D \<Longrightarrow> ?nz ! i ! d = of_bool_fl (\<not> z d)"
    using i ly by (simp add: emap_def z_def)
  have lYz: "length (?Yz ! i) = D" "length (?nz ! i) = D"
    using i ly by (simp_all add: emap_def)
  txt \<open>the five summands\<close>
  have cw: "replicate (length Y) (map flog weights) ! i ! k = flog (weights ! k)"
    using i k w by simp
  have zp: "emap nan_to_num (dot (emap of_bool_fl ?Yz) (emap flog E1)) ! i ! k =
            nan_to_num (fsum (map (\<lambda>d. fmul (of_bool_fl (z d)) (flog (E1 ! d ! k))) [0..<D]))"
  proof -
    have "map2 fmul (emap of_bool_fl ?Yz ! i) (map (\<lambda>row. row ! k) (emap flog E1)) =
          map (\<lambda>d. fmul (of_bool_fl (z d)) (flog (E1 ! d ! k))) [0..<D]"
    proof (rule nth_equalityI)
      show "length (map2 fmul (emap of_bool_fl ?Yz ! i) (map (\<lambda>row. row ! k) (emap flog E1))) =
            length (map (\<lambda>d. fmul (of_bool_fl (z d)) (flog (E1 ! d ! k))) [0..<D])"
        using i lYz E by simp
      fix d assume "d < length (map2 fmul (emap of_bool_fl ?Yz ! i) (map (\<lambda>row. row ! k) (emap flog E1)))"
      then have d: "d < D" using i lYz E by simp
      show "map2 fmul (emap of_bool_fl ?Yz ! i) (map (\<lambda>row. row ! k) (emap flog E1)) ! d =
            map (\<lambda>d. fmul (of_bool_fl (z d)) (flog (E1 ! d ! k))) [0..<D] ! d"
        using d i lYz E(1) rows [OF d] k Yzi [OF d]
        by (simp add: emap_def)
    qed
    then show ?thesis
      using i k ncE by (simp add: emap_nth dot_nth)
  qed
  have nm: "dot ?nz (emap ?gs sigmas) ! i ! k =
            fsum (map (\<lambda>d. fmul (of_bool_fl (\<not> z d)) (?gs (sigmas ! d ! k))) [0..<D])"
  proof -
    have "map2 fmul (?nz ! i) (map (\<lambda>row. row ! k) (emap ?gs sigmas)) =
          map (\<lambda>d. fmul (of_bool_fl (\<not> z d)) (?gs (sigmas ! d ! k))) [0..<D]"
    proof (rule nth_equalityI)
      show "length (map2 fmul (?nz ! i) (map (\<lambda>row. row ! k) (emap ?gs sigmas))) =
            length (map (\<lambda>d. fmul (of_bool_fl (\<not> z d)) (?gs (sigmas ! d ! k))) [0..<D])"
        using i lYz S by simp
      fix d assume "d < length (map2 fmul (?nz ! i) (map (\<lambda>row. row ! k) (emap ?gs sigmas)))"
      then have d: "d < D" using i lYz S by simp
      show "map2 fmul (?nz ! i) (map (\<lambda>row. row ! k) (emap ?gs sigmas)) ! d =
            map (\<lambda>d. fmul (of_bool_fl (\<not> z d)) (?gs (sigmas ! d ! k))) [0..<D] ! d"
        using d i lYz S(1) rows [OF d] k nzi [OF d]
        by (simp add: emap_def)
    qed
    moreover have "dot ?nz (emap ?gs sigmas) ! i ! k =
          fsum (map2 fmul (?nz ! i) (map (\<lambda>row. row ! k) (emap ?gs sigmas)))"
      by (rule dot_nth) (use i k ncS in simp_all)
    ultimately show ?thesis by (simp only:)
  qed
  have dc: "map (\<lambda>row. replicate (ncols mus) (fsum row))
              (emap nan_to_num (emap2 fmul ?nz (emap ?gy Y))) ! i ! k =
            fsum (map (\<lambda>d. nan_to_num (fmul (of_bool_fl (\<not> z d)) (?gy (Y ! i ! d)))) [0..<D])"
  proof -
    let ?row = "emap nan_to_num (emap2 fmul ?nz (emap ?gy Y)) ! i"
    have "?row = map (\<lambda>d. nan_to_num (fmul (of_bool_fl (\<not> z d)) (?gy (Y ! i ! d)))) [0..<D]"
    proof (rule nth_equalityI)
      show "length ?row =
            length (map (\<lambda>d. nan_to_num (fmul (of_bool_fl (\<not> z d)) (?gy (Y ! i ! d)))) [0..<D])"
        using i ly by (simp add: emap_def emap2_def)
      fix d assume "d < length ?row"
      then have d: "d < D" using i ly by (simp add: emap_def emap2_def)
      show "?row ! d =
            map (\<lambda>d. nan_to_num (fmul (of_bool_fl (\<not> z d)) (?gy (Y ! i ! d)))) [0..<D] ! d"
        using d i ly by (simp add: emap_def emap2_def z_def)
    qed
    then show ?thesis
      using i k nc(1) by simp
  qed
  have pr: "map2 (\<lambda>y nz.
                map2 (\<lambda>mu sigma.
                    fneg (fsum (map2 fmul nz
                      (map2 fdiv (map2 (\<lambda>y1 m. fsq (fsub y1 m)) y mu)
                                 (map (\<lambda>s. fmul (Fin 2) (fsq s)) sigma)))))
                  (columns mus) (columns sigmas))
              Y ?nz ! i ! k =
            fneg (fsum (map (\<lambda>d. fmul (of_bool_fl (\<not> z d))
                    (fdiv (fsq (fsub (Y ! i ! d) (mus ! d ! k)))
                       (fmul (Fin 2) (fsq (sigmas ! d ! k))))) [0..<D]))"
  proof -
    let ?prods = "map2 fmul (?nz ! i)
                      (map2 fdiv (map2 (\<lambda>y1 m. fsq (fsub y1 m)) (Y ! i) (columns mus ! k))
                                 (map (\<lambda>s. fmul (Fin 2) (fsq s)) (columns sigmas ! k)))"
    have "?prods = map (\<lambda>d. fmul (of_bool_fl (\<not> z d))
                    (fdiv (fsq (fsub (Y ! i ! d) (mus ! d ! k)))
                       (fmul (Fin 2) (fsq (sigmas ! d ! k))))) [0..<D]"
    proof (rule nth_equalityI)
      show "length ?prods = length (map (\<lambda>d. fmul (of_bool_fl (\<not> z d))
                    (fdiv (fsq (fsub (Y ! i ! d) (mus ! d ! k)))
                       (fmul (Fin 2) (fsq (sigmas ! d ! k))))) [0..<D])"
        using i ly lYz k nc M S by (simp add: columns_nth)
      fix d assume "d < length ?prods"
      then have d: "d < D" using i ly lYz k nc M S by (simp add: columns_nth)
      show "?prods ! d = map (\<lambda>d. fmul (of_bool_fl (\<not> z d))
                    (fdiv (fsq (fsub (Y ! i ! d) (mus ! d ! k)))
                       (fmul (Fin 2) (fsq (sigmas ! d ! k))))) [0..<D] ! d"
        using d i ly lYz k nc M(1) S(1) rows [OF d] nzi [OF d]
        by (simp add: columns_nth)
    qed
    then show ?thesis
      using i k nc by (simp add: columns_nth)
  qed
  txt \<open>the entry is their sum\<close>
  define cwm where "cwm = replicate (length Y) (map flog weights)"
  define zpm where "zpm = emap nan_to_num (dot (emap of_bool_fl ?Yz) (emap flog E1))"
  define nmm where "nmm = dot ?nz (emap ?gs sigmas)"
  define dcm where "dcm = map (\<lambda>row. replicate (ncols mus) (fsum row))
              (emap nan_to_num (emap2 fmul ?nz (emap ?gy Y)))"
  define prm where "prm = map2 (\<lambda>y nz.
                map2 (\<lambda>mu sigma.
                    fneg (fsum (map2 fmul nz
                      (map2 fdiv (map2 (\<lambda>y1 m. fsq (fsub y1 m)) y mu)
                                 (map (\<lambda>s. fmul (Fin 2) (fsq s)) sigma)))))
                  (columns mus) (columns sigmas))
              Y ?nz"
  have W: "computePosteriorLogZProbability Y mus sigmas weights lam E1 =
           emap2 fadd (emap2 fadd (emap2 fadd (emap2 fadd cwm zpm) nmm) dcm) prm"
    unfolding computePosteriorLogZProbability_def Let_def cwm_def zpm_def nmm_def dcm_def prm_def
    by (rule refl)
  have len: "length cwm = length Y" "length zpm = length Y" "length nmm = length Y"
    "length dcm = length Y" "length prm = length Y"
    by (simp_all add: cwm_def zpm_def nmm_def dcm_def prm_def)
  have rowlen: "length (cwm ! i) = K" "length (zpm ! i) = K" "length (nmm ! i) = K"
    "length (dcm ! i) = K" "length (prm ! i) = K"
    using i w nc ncE ncS
    by (simp_all add: cwm_def zpm_def nmm_def dcm_def prm_def)
  have "computePosteriorLogZProbability Y mus sigmas weights lam E1 ! i ! k =
        fadd (fadd (fadd (fadd (cwm ! i ! k) (zpm ! i ! k)) (nmm ! i ! k)) (dcm ! i ! k)) (prm ! i ! k)"
    unfolding W using i k by (simp add: emap2_nth len rowlen)
  then show ?thesis
    unfolding cwm_def zpm_def nmm_def dcm_def prm_def cw zp nm dc pr z_def .
qed

lemma nan_to_num_zero_times [simp]: "nan_to_num (fmul (Fin 0) x) = Fin 0"
  by (cases x) (simp_all add: signed_inf_def)

lemma posterior_entry_finite:
  assumes Y: "\<forall>row\<in>set Y. length row = D"
    and M: "length mus = D" "\<forall>row\<in>set mus. length row = K"
    and S: "length sigmas = D" "\<forall>row\<in>set sigmas. length row = K"
    and E: "length E1 = D" "\<forall>row\<in>set E1. length row = K"
    and w: "length weights = K"
    and D: "0 < D" and i: "i < length Y" and k: "k < K"
    and fw: "finite_fl (flog (weights ! k))"
    and fin: "\<forall>d<D. finite_fl (flog (E1 ! d ! k))
                \<and> finite_fl (flog (fdiv (Fin 1)
                     (fsqrt (fmul (fmul (Fin 2) (Fin pi)) (fsq (sigmas ! d ! k))))))
                \<and> finite_fl (fdiv (fsq (fsub (Y ! i ! d) (mus ! d ! k)))
                     (fmul (Fin 2) (fsq (sigmas ! d ! k))))
                \<and> (\<not> fless (fabs (Y ! i ! d)) (Fin (1 / 10 ^ 6))
                    \<longrightarrow> finite_fl (flog (fsub (Fin 1) (fexp (fmul (fneg lam) (fsq (Y ! i ! d)))))))"
  shows "spec_posterior_entry Y mus sigmas weights lam E1 i k =
         computePosteriorLogZProbability Y mus sigmas weights lam E1 ! i ! k"
proof -
  define z where "z d = fless (fabs (Y ! i ! d)) (Fin (1 / 10 ^ 6))" for d
  define rv where "rv x = (case x of Fin r \<Rightarrow> r | _ \<Rightarrow> 0)" for x
  define a where "a d = rv (flog (E1 ! d ! k))" for d
  define b where "b d = rv (flog (fdiv (Fin 1)
                     (fsqrt (fmul (fmul (Fin 2) (Fin pi)) (fsq (sigmas ! d ! k))))))" for d
  define q where "q d = rv (fdiv (fsq (fsub (Y ! i ! d) (mus ! d ! k)))
                     (fmul (Fin 2) (fsq (sigmas ! d ! k))))" for d
  define c where "c d = rv (flog (fsub (Fin 1) (fexp (fmul (fneg lam) (fsq (Y ! i ! d))))))" for d
  define lw where "lw = rv (flog (weights ! k))"
  have rv: "finite_fl x \<Longrightarrow> x = Fin (rv x)" for x
    by (cases x) (simp_all add: finite_fl_def rv_def)
  have ly: "length (Y ! i) = D" using Y i by simp
  have W: "flog (weights ! k) = Fin lw"
    unfolding lw_def by (rule rv [OF fw])
  have A: "d < D \<Longrightarrow> flog (E1 ! d ! k) = Fin (a d)" for d
    unfolding a_def using fin by (intro rv) simp
  have B: "d < D \<Longrightarrow> flog (fdiv (Fin 1)
                     (fsqrt (fmul (fmul (Fin 2) (Fin pi)) (fsq (sigmas ! d ! k))))) = Fin (b d)" for d
    unfolding b_def using fin by (intro rv) simp
  have Q: "d < D \<Longrightarrow> fdiv (fsq (fsub (Y ! i ! d) (mus ! d ! k)))
                     (fmul (Fin 2) (fsq (sigmas ! d ! k))) = Fin (q d)" for d
    unfolding q_def using fin by (intro rv) simp
  have C: "d < D \<Longrightarrow> \<not> z d \<Longrightarrow>
             flog (fsub (Fin 1) (fexp (fmul (fneg lam) (fsq (Y ! i ! d))))) = Fin (c d)" for d
    unfolding c_def using fin by (intro rv) (simp add: z_def)
  txt \<open>the source\<close>
  have zp: "fsum (map (\<lambda>d. fmul (of_bool_fl (z d)) (flog (E1 ! d ! k))) [0..<D]) =
            Fin (\<Sum>d\<leftarrow>[0..<D]. if z d then a d else 0)"
    by (rule fsum_index_Fin) (use A in \<open>simp_all add: of_bool_fl_def\<close>)
  have nm: "fsum (map (\<lambda>d. fmul (of_bool_fl (\<not> z d)) (flog (fdiv (Fin 1)
                     (fsqrt (fmul (fmul (Fin 2) (Fin pi)) (fsq (sigmas ! d ! k))))))) [0..<D]) =
            Fin (\<Sum>d\<leftarrow>[0..<D]. if z d then 0 else b d)"
    by (rule fsum_index_Fin) (use B in \<open>simp_all add: of_bool_fl_def\<close>)
  have dc: "fsum (map (\<lambda>d. nan_to_num (fmul (of_bool_fl (\<not> z d))
                    (flog (fsub (Fin 1) (fexp (fmul (fneg lam) (fsq (Y ! i ! d)))))))) [0..<D]) =
            Fin (\<Sum>d\<leftarrow>[0..<D]. if z d then 0 else c d)"
    by (rule fsum_index_Fin) (use C in \<open>simp_all add: of_bool_fl_def\<close>)
  have pr: "fsum (map (\<lambda>d. fmul (of_bool_fl (\<not> z d))
                    (fdiv (fsq (fsub (Y ! i ! d) (mus ! d ! k)))
                       (fmul (Fin 2) (fsq (sigmas ! d ! k))))) [0..<D]) =
            Fin (\<Sum>d\<leftarrow>[0..<D]. if z d then 0 else q d)"
    by (rule fsum_index_Fin) (use Q in \<open>simp_all add: of_bool_fl_def\<close>)
  have code: "computePosteriorLogZProbability Y mus sigmas weights lam E1 ! i ! k =
        Fin (lw + (\<Sum>d\<leftarrow>[0..<D]. if z d then a d else 0)
                + (\<Sum>d\<leftarrow>[0..<D]. if z d then 0 else b d)
                + (\<Sum>d\<leftarrow>[0..<D]. if z d then 0 else c d)
                - (\<Sum>d\<leftarrow>[0..<D]. if z d then 0 else q d))"
    unfolding posterior_entry_sum [OF Y M S E w D i k] z_def [symmetric] W zp nm dc pr
    by simp
  txt \<open>the wording of the claim\<close>
  have sp: "fsum (map (\<lambda>d.
            if fless (fabs (Y ! i ! d)) (Fin (1 / 10 ^ 6)) then
              finite_or_zero (flog (E1 ! d ! k))
            else
              fadd
                (fadd
                   (finite_or_zero
                      (flog (fdiv (Fin 1)
                         (fsqrt (fmul (fmul (Fin 2) (Fin pi)) (fsq (sigmas ! d ! k)))))))
                   (finite_or_zero
                      (fneg (fdiv (fsq (fsub (Y ! i ! d) (mus ! d ! k)))
                         (fmul (Fin 2) (fsq (sigmas ! d ! k)))))))
                (finite_or_zero
                   (flog (fsub (Fin 1) (fexp (fmul (fneg lam) (fsq (Y ! i ! d))))))))
          [0..<D]) =
        Fin (\<Sum>d\<leftarrow>[0..<D]. if z d then a d else b d - q d + c d)"
  proof (rule fsum_index_Fin)
    fix d assume d: "d < D"
    show "map (\<lambda>d.
            if fless (fabs (Y ! i ! d)) (Fin (1 / 10 ^ 6)) then
              finite_or_zero (flog (E1 ! d ! k))
            else
              fadd
                (fadd
                   (finite_or_zero
                      (flog (fdiv (Fin 1)
                         (fsqrt (fmul (fmul (Fin 2) (Fin pi)) (fsq (sigmas ! d ! k)))))))
                   (finite_or_zero
                      (fneg (fdiv (fsq (fsub (Y ! i ! d) (mus ! d ! k)))
                         (fmul (Fin 2) (fsq (sigmas ! d ! k)))))))
                (finite_or_zero
                   (flog (fsub (Fin 1) (fexp (fmul (fneg lam) (fsq (Y ! i ! d))))))))
          [0..<D] ! d = Fin (if z d then a d else b d - q d + c d)"
    proof (cases "z d")
      case True
      then have "fless (fabs (Y ! i ! d)) (Fin (1 / 10 ^ 6))"
        by (simp add: z_def)
      then show ?thesis
        using d A [OF d] True by (simp add: finite_or_zero_def)
    next
      case False
      then have "\<not> fless (fabs (Y ! i ! d)) (Fin (1 / 10 ^ 6))"
        by (simp add: z_def)
      then show ?thesis
        using d B [OF d] Q [OF d] C [OF d False] False by (simp add: finite_or_zero_def)
    qed
  qed simp
  have spec: "spec_posterior_entry Y mus sigmas weights lam E1 i k =
        Fin (lw + (\<Sum>d\<leftarrow>[0..<D]. if z d then a d else b d - q d + c d))"
    unfolding spec_posterior_entry_def ly sp W by (simp add: finite_or_zero_def)
  have "(\<Sum>d\<leftarrow>[0..<D]. if z d then a d else b d - q d + c d) =
        (\<Sum>d\<leftarrow>[0..<D]. (if z d then a d else 0) + (if z d then 0 else b d)
           + (if z d then 0 else c d) - (if z d then 0 else q d))"
    by (intro arg_cong [where f = sum_list] map_cong refl) simp
  also have "\<dots> = (\<Sum>d\<leftarrow>[0..<D]. if z d then a d else 0)
                + (\<Sum>d\<leftarrow>[0..<D]. if z d then 0 else b d)
                + (\<Sum>d\<leftarrow>[0..<D]. if z d then 0 else c d)
                - (\<Sum>d\<leftarrow>[0..<D]. if z d then 0 else q d)"
    by (simp only: sum_list_addf sum_list_subtractf)
  finally show ?thesis
    unfolding code spec by simp
qed

text \<open>
  Claim C2, as amended. For \<open>Y\<close> of shape \<open>N \<times> D\<close>, \<open>mus\<close>, \<open>sigmas\<close> and \<open>E1\<close> of shape
  \<open>D \<times> K\<close> and \<open>weights\<close> of length \<open>K\<close>, the entry \<open>(i, k)\<close> of the matrix is the sum of
  five terms: \<open>log weights[k]\<close>; \<open>nan_to_num\<close> of the sum over all dimensions of
  \<open>[censored] * log E1[d, k]\<close>; the sum over all dimensions of
  \<open>[observed] * log (1 / sqrt (2 pi sigma[d, k]\<^sup>2))\<close>; the sum over all dimensions of
  \<open>nan_to_num ([observed] * log (1 - exp (-lambda * Y[i, d]\<^sup>2)))\<close>; and minus the sum over
  all dimensions of \<open>[observed] * (Y[i, d] - mu[d, k])\<^sup>2 / (2 sigma[d, k]\<^sup>2)\<close>. Here
  \<open>nan_to_num\<close> puts 0 for a NaN and the largest float, with its sign, for an infinity, and
  nothing else is substituted. When the logarithm of the weight and, at every dimension,
  \<open>log E1\<close> and the two Gaussian terms and, at every observed dimension, the decay term
  are finite, this is the entry as the claim words it.
\<close>

theorem posterior_entry_general:
  assumes "\<forall>row\<in>set Y. length row = D"
    and "length mus = D" "\<forall>row\<in>set mus. length row = K"
    and "length sigmas = D" "\<forall>row\<in>set sigmas. length row = K"
    and "length E1 = D" "\<forall>row\<in>set E1. length row = K"
    and "length weights = K"
    and "0 < D" and "i < length Y" and "k < K"
  shows "computePosteriorLogZProbability Y mus sigmas weights lam E1 ! i ! k =
         fadd
           (fadd
              (fadd
                 (fadd (flog (weights ! k))
                    (nan_to_num (fsum (map (\<lambda>d.
                        fmul (of_bool_fl (fless (fabs (Y ! i ! d)) (Fin (1 / 10 ^ 6))))
                          (flog (E1 ! d ! k))) [0..<D]))))
                 (fsum (map (\<lambda>d.
                    fmul (of_bool_fl (\<not> fless (fabs (Y ! i ! d)) (Fin (1 / 10 ^ 6))))
                      (flog (fdiv (Fin 1)
                         (fsqrt (fmul (fmul (Fin 2) (Fin pi)) (fsq (sigmas ! d ! k))))))) [0..<D])))
              (fsum (map (\<lambda>d.
                 nan_to_num
                   (fmul (of_bool_fl (\<not> fless (fabs (Y ! i ! d)) (Fin (1 / 10 ^ 6))))
                      (flog (fsub (Fin 1) (fexp (fmul (fneg lam) (fsq (Y ! i ! d)))))))) [0..<D])))
           (fneg (fsum (map (\<lambda>d.
              fmul (of_bool_fl (\<not> fless (fabs (Y ! i ! d)) (Fin (1 / 10 ^ 6))))
                (fdiv (fsq (fsub (Y ! i ! d) (mus ! d ! k)))
                   (fmul (Fin 2) (fsq (sigmas ! d ! k))))) [0..<D])))
         \<and> (finite_fl (flog (weights ! k))
            \<and> (\<forall>d<D. finite_fl (flog (E1 ! d ! k))
                \<and> finite_fl (flog (fdiv (Fin 1)
                     (fsqrt (fmul (fmul (Fin 2) (Fin pi)) (fsq (sigmas ! d ! k))))))
                \<and> finite_fl (fdiv (fsq (fsub (Y ! i ! d) (mus ! d ! k)))
                     (fmul (Fin 2) (fsq (sigmas ! d ! k))))
                \<and> (\<not> fless (fabs (Y ! i ! d)) (Fin (1 / 10 ^ 6))
                    \<longrightarrow> finite_fl (flog (fsub (Fin 1) (fexp (fmul (fneg lam) (fsq (Y ! i ! d))))))))
            \<longrightarrow> spec_posterior_entry Y mus sigmas weights lam E1 i k =
                computePosteriorLogZProbability Y mus sigmas weights lam E1 ! i ! k)"
  using posterior_entry_sum [OF assms] posterior_entry_finite [OF assms]
  by blast

theorem posterior_entry_general_witness:
  "computePosteriorLogZProbability [[Fin 0, Fin 1]] [[Fin 0], [Fin 0]] [[Fin 1], [Fin 1]] [Fin 1]
     (Fin 1) [[Fin (1 / 2)], [Fin (1 / 2)]] ! 0 ! 0 =
   Fin (ln (1 / 2) + (ln (1 / sqrt (2 * pi)) - 1 / 2 + ln (1 - exp (- 1))))
   \<and> spec_posterior_entry [[Fin 0, Fin 1]] [[Fin 0], [Fin 0]] [[Fin 1], [Fin 1]] [Fin 1]
       (Fin 1) [[Fin (1 / 2)], [Fin (1 / 2)]] 0 0 =
     computePosteriorLogZProbability [[Fin 0, Fin 1]] [[Fin 0], [Fin 0]] [[Fin 1], [Fin 1]] [Fin 1]
       (Fin 1) [[Fin (1 / 2)], [Fin (1 / 2)]] ! 0 ! 0"
  using posterior_entry_general [of "[[Fin 0, Fin 1]]" 2 "[[Fin 0], [Fin 0]]" 1 "[[Fin 1], [Fin 1]]"
      "[[Fin (1 / 2)], [Fin (1 / 2)]]" "[Fin 1]" 0 0 "Fin 1"]
  by (simp add: numeral_2_eq_2 All_less_Suc finite_fl_def of_bool_fl_def fsum_def signed_inf_def)

end
